theory Spec2Isabelle
  imports Complex_Main
begin

section \<open>Exceptions and results\<close>

text \<open>
  The models of \<^verbatim>\<open>src/models/mmoe_mt.py\<close> and \<^verbatim>\<open>src/models/mmoe_mt_att.py\<close> are
  Python classes over PyTorch tensors. A raised exception is a value: every function that
  can raise returns \<open>error + 'a\<close>, with \<open>Inl\<close> for the exception.
\<close>

datatype error =
  ValueError | TypeError | IndexError | RuntimeError | AttributeError | KeyError
  | NotImplementedError

type_synonym 'a result = "error + 'a"

definition rbind :: "'a result \<Rightarrow> ('a \<Rightarrow> 'b result) \<Rightarrow> 'b result" where
  "rbind r f = (case r of Inl e \<Rightarrow> Inl e | Inr x \<Rightarrow> f x)"

section \<open>Tensors\<close>

text \<open>
  A tensor is its shape and its elements in row-major order. The elements are real
  numbers: the arithmetic of the model is exact, the rounding of the floating-point
  formats is not modelled. Every tensor PyTorch builds satisfies \<open>wf_tensor\<close>.
\<close>

datatype tensor = Tensor (shape: "nat list") (data: "real list")

definition numel :: "nat list \<Rightarrow> nat" where
  "numel s = prod_list s"

definition wf_tensor :: "tensor \<Rightarrow> bool" where
  "wf_tensor t = (length (data t) = numel (shape t))"

text \<open>Integer tensors (\<^verbatim>\<open>torch.int64\<close>), the result of \<^verbatim>\<open>.long()\<close>.\<close>

datatype itensor = ITensor (ishape: "nat list") (idata: "int list")

subsection \<open>Index arithmetic\<close>

fun unravel :: "nat list \<Rightarrow> nat \<Rightarrow> nat list" where
  "unravel [] k = []"
| "unravel (n # s) k = (k div numel s) # unravel s (k mod numel s)"

fun ravel :: "nat list \<Rightarrow> nat list \<Rightarrow> nat" where
  "ravel (n # s) (i # idx) = i * numel s + ravel s idx"
| "ravel s idx = 0"

definition pad_left :: "nat \<Rightarrow> nat list \<Rightarrow> nat list" where
  "pad_left n s = replicate (n - length s) 1 @ s"

definition bdim :: "nat \<Rightarrow> nat \<Rightarrow> nat option" where
  "bdim a b = (if a = b then Some a else if a = 1 then Some b
               else if b = 1 then Some a else None)"

text \<open>PyTorch's broadcasting of two shapes, aligned at the last dimension.\<close>

definition broadcast_shapes :: "nat list \<Rightarrow> nat list \<Rightarrow> nat list option" where
  "broadcast_shapes s t =
     (let n = max (length s) (length t);
          ds = map2 bdim (pad_left n s) (pad_left n t)
      in if None \<in> set ds then None else Some (map the ds))"

text \<open>The element of \<open>t\<close> that the multi-index \<open>idx\<close> of a broadcast result reads.\<close>

definition bget :: "tensor \<Rightarrow> nat list \<Rightarrow> real" where
  "bget t idx =
     (let s = pad_left (length idx) (shape t)
      in data t ! ravel s (map2 (\<lambda>d i. if d = 1 then 0 else i) s idx))"

subsection \<open>The PyTorch operations the two forward passes use\<close>

text \<open>\<^verbatim>\<open>a * b\<close> on tensors: element-wise product with broadcasting.\<close>

definition mul :: "tensor \<Rightarrow> tensor \<Rightarrow> tensor result" where
  "mul a b =
     (case broadcast_shapes (shape a) (shape b) of
        None \<Rightarrow> Inl RuntimeError
      | Some s \<Rightarrow>
          Inr (Tensor s (map (\<lambda>k. bget a (unravel s k) * bget b (unravel s k))
                             [0..<numel s])))"

text \<open>\<^verbatim>\<open>t * c\<close> for a Python number \<open>c\<close>.\<close>

definition scale :: "real \<Rightarrow> tensor \<Rightarrow> tensor" where
  "scale c t = Tensor (shape t) (map (\<lambda>x. x * c) (data t))"

definition sigmoid :: "real \<Rightarrow> real" where
  "sigmoid x = 1 / (1 + exp (- x))"

definition relu :: "real \<Rightarrow> real" where
  "relu x = max 0 x"

definition pointwise :: "(real \<Rightarrow> real) \<Rightarrow> tensor \<Rightarrow> tensor" where
  "pointwise f t = Tensor (shape t) (map f (data t))"

text \<open>\<^verbatim>\<open>t.softmax(1)\<close>: dimension 1 must exist.\<close>

definition softmax1 :: "tensor \<Rightarrow> tensor result" where
  "softmax1 t =
     (case shape t of
        d0 # d1 # rest \<Rightarrow>
          (let inner = numel rest
           in Inr (Tensor (shape t)
                (map (\<lambda>k. exp (data t ! k) /
                        (\<Sum>e\<leftarrow>[0..<d1].
                           exp (data t ! ((k div (d1 * inner) * d1 + e) * inner + k mod inner))))
                     [0..<numel (shape t)])))
      | _ \<Rightarrow> Inl IndexError)"

text \<open>\<^verbatim>\<open>t.unsqueeze(1)\<close>: a new dimension of size 1 at position 1.\<close>

definition unsqueeze1 :: "tensor \<Rightarrow> tensor result" where
  "unsqueeze1 t =
     (case shape t of
        [] \<Rightarrow> Inl IndexError
      | d0 # rest \<Rightarrow> Inr (Tensor (d0 # 1 # rest) (data t)))"

text \<open>\<^verbatim>\<open>t.squeeze()\<close> with no argument: every dimension of size 1 is removed.\<close>

definition squeeze :: "tensor \<Rightarrow> tensor" where
  "squeeze t = Tensor (filter (\<lambda>d. d \<noteq> 1) (shape t)) (data t)"

text \<open>\<^verbatim>\<open>torch.flatten(t, start_dim=1)\<close>.\<close>

definition flatten1 :: "tensor \<Rightarrow> tensor result" where
  "flatten1 t =
     (case shape t of
        d0 # d1 # rest \<Rightarrow> Inr (Tensor [d0, numel (d1 # rest)] (data t))
      | _ \<Rightarrow> Inl IndexError)"

text \<open>
  \<^verbatim>\<open>torch.matmul(a, b)\<close>: a one-dimensional argument is a row (left) or a column
  (right) whose added dimension is removed from the result; the leading (batch)
  dimensions broadcast; the last two are multiplied as matrices.
\<close>

definition matmul :: "tensor \<Rightarrow> tensor \<Rightarrow> tensor result" where
  "matmul a b =
     (if shape a = [] \<or> shape b = [] then Inl RuntimeError
      else
        let sa = (if length (shape a) = 1 then 1 # shape a else shape a);
            sb = (if length (shape b) = 1 then shape b @ [1] else shape b);
            ba = butlast (butlast sa); n = last (butlast sa); m = last sa;
            bb = butlast (butlast sb); m' = last (butlast sb); p = last sb
        in if m \<noteq> m' then Inl RuntimeError
           else
             (case broadcast_shapes ba bb of
                None \<Rightarrow> Inl RuntimeError
              | Some bs \<Rightarrow>
                  Inr (Tensor
                    (bs @ (if length (shape a) = 1 then [] else [n])
                        @ (if length (shape b) = 1 then [] else [p]))
                    (map (\<lambda>k.
                        let q = unravel bs (k div (n * p)); i = (k div p) mod n; j = k mod p
                        in (\<Sum>t\<leftarrow>[0..<m].
                              bget (Tensor sa (data a)) (q @ [i, t]) *
                              bget (Tensor sb (data b)) (q @ [t, j])))
                      [0..<numel bs * n * p]))))"

text \<open>\<^verbatim>\<open>torch.stack(ts, 1)\<close>: equal shapes, a new dimension at position 1.\<close>

definition stack1 :: "tensor list \<Rightarrow> tensor result" where
  "stack1 ts =
     (case ts of
        [] \<Rightarrow> Inl RuntimeError
      | t0 # _ \<Rightarrow>
          if \<exists>t \<in> set ts. shape t \<noteq> shape t0 then Inl RuntimeError
          else
            (case shape t0 of
               [] \<Rightarrow> Inl IndexError
             | d0 # rest \<Rightarrow>
                 (let inner = numel rest; E = length ts
                  in Inr (Tensor (d0 # E # rest)
                       (map (\<lambda>k. data (ts ! ((k div inner) mod E)) !
                                    (k div (E * inner) * inner + k mod inner))
                            [0..<d0 * E * inner])))))"

text \<open>
  \<^verbatim>\<open>torch.cat(ts, dim)\<close>. A negative axis counts from the last dimension. Tensors of
  shape \<open>(0,)\<close> are skipped; the others agree in rank and in every dimension but that one.
\<close>

definition cat :: "tensor list \<Rightarrow> int \<Rightarrow> tensor result" where
  "cat ts axis =
     (if ts = [] then Inl RuntimeError
      else
        (case filter (\<lambda>t. shape t \<noteq> [0]) ts of
           [] \<Rightarrow> Inr (Tensor [0] [])
         | t0 # ts' \<Rightarrow>
             (let s = shape t0; r = int (length s);
                  d = (if axis < 0 then axis + r else axis)
              in if s = [] then Inl RuntimeError
                 else if d < 0 \<or> r \<le> d then Inl IndexError
                 else if \<exists>t \<in> set ts'. length (shape t) \<noteq> length s \<or>
                           take (nat d) (shape t) \<noteq> take (nat d) s \<or>
                           drop (Suc (nat d)) (shape t) \<noteq> drop (Suc (nat d)) s
                   then Inl RuntimeError
                 else
                   (let inner = numel (drop (Suc (nat d)) s);
                        outer = numel (take (nat d) s);
                        sz = (\<lambda>t. (shape t ! nat d) * inner)
                    in Inr (Tensor
                         (s[nat d := (\<Sum>t\<leftarrow>t0 # ts'. shape t ! nat d)])
                         (concat (map (\<lambda>a. concat (map (\<lambda>t. take (sz t) (drop (a * sz t) (data t)))
                                                      (t0 # ts')))
                                      [0..<outer])))))))"

text \<open>\<^verbatim>\<open>X[:, c]\<close> for a column index \<open>c \<ge> 0\<close>.\<close>

definition select_col :: "tensor \<Rightarrow> nat \<Rightarrow> tensor result" where
  "select_col t c =
     (case shape t of
        d0 # d1 # rest \<Rightarrow>
          if d1 \<le> c then Inl IndexError
          else
            (let inner = numel rest
             in Inr (Tensor (d0 # rest)
                  (concat (map (\<lambda>a. take inner (drop ((a * d1 + c) * inner) (data t)))
                               [0..<d0]))))
      | _ \<Rightarrow> Inl IndexError)"

text \<open>\<^verbatim>\<open>t.long()\<close>: every element is truncated towards zero.\<close>

definition trunc :: "real \<Rightarrow> int" where
  "trunc x = (if 0 \<le> x then \<lfloor>x\<rfloor> else \<lceil>x\<rceil>)"

definition long :: "tensor \<Rightarrow> itensor" where
  "long t = ITensor (shape t) (map trunc (data t))"

section \<open>Modules\<close>

text \<open>
  A constructed \<^verbatim>\<open>nn.Module\<close> object is its identity (the number the constructor's
  allocation counter had when the object was built) and what it holds. Two entries of a
  \<^verbatim>\<open>ModuleList\<close> are the same object exactly when their identities agree.
\<close>

datatype 'a module = Module (mid: nat) (impl: 'a)

text \<open>
  The layers of \<^verbatim>\<open>deepctr_torch\<close> (\<^verbatim>\<open>DNN\<close>, \<^verbatim>\<open>PredictionLayer\<close>) and of
  \<^verbatim>\<open>models/satrans.py\<close> (\<^verbatim>\<open>SelfAttention_Layer\<close>, \<^verbatim>\<open>Attention_Layer\<close>) are not
  part of the two source files: a built layer is the function it computes.
\<close>

type_synonym layer = "tensor \<Rightarrow> tensor result"

type_synonym layer2 = "tensor \<Rightarrow> tensor \<Rightarrow> tensor result"

text \<open>\<^verbatim>\<open>nn.Linear(in_features, out_features, bias=False)\<close>; the weight has one row per output.\<close>

record linear =
  in_features :: nat
  out_features :: nat
  weight :: "real list list"

definition dot :: "real list \<Rightarrow> real list \<Rightarrow> real" where
  "dot w x = (\<Sum>(a, b)\<leftarrow>zip w x. a * b)"

definition linear_apply :: "linear \<Rightarrow> tensor \<Rightarrow> tensor result" where
  "linear_apply L x =
     (if shape x = [] \<or> last (shape x) \<noteq> in_features L then Inl RuntimeError
      else Inr (Tensor (butlast (shape x) @ [out_features L])
             (concat (map (\<lambda>r. map (\<lambda>w. dot w (take (in_features L)
                                                  (drop (r * in_features L) (data x))))
                                   (weight L))
                          [0..<numel (butlast (shape x))]))))"

text \<open>The layers of the LHUC block: \<^verbatim>\<open>nn.Linear\<close>, \<^verbatim>\<open>nn.ReLU()\<close>, \<^verbatim>\<open>nn.Sigmoid()\<close>.\<close>

datatype torch_layer = Linear linear | ReLU | Sigmoid

fun torch_layer_apply :: "torch_layer \<Rightarrow> tensor \<Rightarrow> tensor result" where
  "torch_layer_apply (Linear L) x = linear_apply L x"
| "torch_layer_apply ReLU x = Inr (pointwise relu x)"
| "torch_layer_apply Sigmoid x = Inr (pointwise sigmoid x)"

text \<open>\<^verbatim>\<open>nn.Embedding(num_embeddings, embedding_dim)\<close>: one row per index.\<close>

record embedding =
  num_embeddings :: nat
  embedding_width :: nat
  table :: "real list list"

definition embedding_apply :: "embedding \<Rightarrow> itensor \<Rightarrow> tensor result" where
  "embedding_apply E ids =
     (if list_all (\<lambda>i. 0 \<le> i \<and> i < int (num_embeddings E)) (idata ids)
      then Inr (Tensor (ishape ids @ [embedding_width E])
             (concat (map (\<lambda>i. table E ! nat i) (idata ids))))
      else Inl IndexError)"

section \<open>Programs with a state\<close>

text \<open>
  The constructor runs over the allocation counter of module objects; a forward pass runs
  over the log of the module calls it has made. When an exception is raised the state is
  the one reached at the raise.
\<close>

type_synonym ('s, 'a) prog = "'s \<Rightarrow> 'a result \<times> 's"

definition ret :: "'a \<Rightarrow> ('s, 'a) prog" where
  "ret x = (\<lambda>s. (Inr x, s))"

definition lift :: "'a result \<Rightarrow> ('s, 'a) prog" where
  "lift r = (\<lambda>s. (r, s))"

definition pbind :: "('s, 'a) prog \<Rightarrow> ('a \<Rightarrow> ('s, 'b) prog) \<Rightarrow> ('s, 'b) prog" where
  "pbind m f = (\<lambda>s. case m s of (Inl e, s') \<Rightarrow> (Inl e, s') | (Inr x, s') \<Rightarrow> f x s')"

text \<open>\<^verbatim>\<open>[f(x) for x in xs]\<close>, and a \<^verbatim>\<open>for\<close> loop that appends one value per round.\<close>

fun for_each :: "'a list \<Rightarrow> ('a \<Rightarrow> ('s, 'b) prog) \<Rightarrow> ('s, 'b list) prog" where
  "for_each [] f = ret []"
| "for_each (x # xs) f = pbind (f x) (\<lambda>y. pbind (for_each xs f) (\<lambda>ys. ret (y # ys)))"

text \<open>A program that returns a value from every state.\<close>

definition succeeds :: "('s, 'a) prog \<Rightarrow> bool" where
  "succeeds m = (\<forall>s. \<exists>x s'. m s = (Inr x, s'))"

text \<open>
  Building a module object takes the next identity. The builder is given the identity, so
  that two objects built with the same arguments may start from different random weights.
\<close>

definition new_module :: "(nat \<Rightarrow> 'a result) \<Rightarrow> (nat, 'a module) prog" where
  "new_module build =
     (\<lambda>n. case build n of Inl e \<Rightarrow> (Inl e, n) | Inr x \<Rightarrow> (Inr (Module n x), Suc n))"

text \<open>
  A module call, as the log records it: the attribute of \<^verbatim>\<open>self\<close> and the indices
  that select the module, the identity of the module object that ran, and the arguments
  of the call.
\<close>

datatype arg = TensorArg tensor | IndexArg itensor

datatype event = Call string "nat list" nat "arg list"

definition invoke :: "string \<Rightarrow> nat list \<Rightarrow> 'a module \<Rightarrow> arg list \<Rightarrow> ('a \<Rightarrow> 'b result) \<Rightarrow>
    (event list, 'b) prog" where
  "invoke a idx M xs run = (\<lambda>evs. (run (impl M), evs @ [Call a idx (mid M) xs]))"

text \<open>
  The attribute and the module of a call, the calls of the experts in a log, and a
  program that adds none.
\<close>

fun call_attr :: "event \<Rightarrow> string" where
  "call_attr (Call a idx n xs) = a"

fun call_mid :: "event \<Rightarrow> nat" where
  "call_mid (Call a idx n xs) = n"

definition expert_calls :: "event list \<Rightarrow> event list" where
  "expert_calls evs = filter (\<lambda>ev. call_attr ev = ''expert_dnn'') evs"

definition quiet :: "(event list, 'a) prog \<Rightarrow> bool" where
  "quiet p = (\<forall>evs. expert_calls (snd (p evs)) = expert_calls evs)"

text \<open>A program whose value does not depend on the state it starts from.\<close>

definition pure_value :: "('s, 'a) prog \<Rightarrow> bool" where
  "pure_value m = (\<forall>s s'. fst (m s) = fst (m s'))"

text \<open>Python's \<^verbatim>\<open>xs[i]\<close> for \<open>i \<ge> 0\<close>, \<^verbatim>\<open>xs[-1]\<close>, and the read of an attribute that may be unset.\<close>

definition get :: "'a list \<Rightarrow> nat \<Rightarrow> 'a result" where
  "get xs i = (if i < length xs then Inr (xs ! i) else Inl IndexError)"

definition py_last :: "'a list \<Rightarrow> 'a result" where
  "py_last xs = (if xs = [] then Inl IndexError else Inr (last xs))"

definition attr :: "'a option \<Rightarrow> 'a result" where
  "attr v = (case v of None \<Rightarrow> Inl AttributeError | Some x \<Rightarrow> Inr x)"

text \<open>\<^verbatim>\<open>p in s\<close> for two strings: \<open>p\<close> occurs in \<open>s\<close> as a substring.\<close>

fun str_contains :: "string \<Rightarrow> string \<Rightarrow> bool" where
  "str_contains p [] = (p = [])"
| "str_contains p (c # s) = (take (length p) (c # s) = p \<or> str_contains p s)"

text \<open>\<^verbatim>\<open>'usetrans' in self.flag\<close>: the default \<^verbatim>\<open>flag=None\<close> supports no membership test.\<close>

definition usetrans_in :: "string option \<Rightarrow> bool result" where
  "usetrans_in f = (case f of None \<Rightarrow> Inl TypeError | Some s \<Rightarrow> Inr (str_contains ''usetrans'' s))"

section \<open>What the two classes take from outside\<close>

text \<open>
  A feature column; the two source files read its \<^verbatim>\<open>name\<close> only.
\<close>

record feature_column =
  name :: string

text \<open>
  The attributes \<^verbatim>\<open>BaseModel.__init__\<close> (\<^verbatim>\<open>models/mtl_basemodel.py\<close>, not among the
  source files) leaves in \<^verbatim>\<open>self\<close> and that the two classes read.
\<close>

record base_model =
  dnn_feature_columns :: "feature_column list"
  embedding_size :: nat
  embedding_dim :: nat
  feature_index :: "string \<Rightarrow> (nat \<times> nat) option"

text \<open>
  The functions and constructors of \<^verbatim>\<open>BaseModel\<close>, \<^verbatim>\<open>deepctr_torch\<close> and
  \<^verbatim>\<open>models/satrans.py\<close> are parameters. \<^verbatim>\<open>input_from_feature_columns\<close> stands for the
  method with \<^verbatim>\<open>self.embedding_dict\<close> applied. A constructor takes the identity of the
  object it builds first. The constructor arguments that these constructors alone read
  (regularisation strengths, \<^verbatim>\<open>init_std\<close>, \<^verbatim>\<open>seed\<close>, dropout, activation, batch
  normalisation, device) are part of the parameters.
\<close>

record env =
  input_from_feature_columns ::
    "tensor \<Rightarrow> feature_column list \<Rightarrow> (tensor list \<times> tensor list) result"
  combined_dnn_input :: "tensor list \<Rightarrow> tensor list \<Rightarrow> tensor result"
  compute_input_dim :: "feature_column list \<Rightarrow> nat"
  DNN :: "nat \<Rightarrow> nat \<Rightarrow> nat list \<Rightarrow> layer result"
  SelfAttention_Layer :: "nat \<Rightarrow> nat \<Rightarrow> nat \<Rightarrow> bool \<Rightarrow> layer result"
  Attention_Layer :: "nat \<Rightarrow> nat \<Rightarrow> nat \<Rightarrow> bool \<Rightarrow> layer2 result"
  PredictionLayer :: "nat \<Rightarrow> string \<Rightarrow> layer result"
  linear_init :: "nat \<Rightarrow> nat \<Rightarrow> nat \<Rightarrow> real"
  embedding_init :: "nat \<Rightarrow> nat \<Rightarrow> nat \<Rightarrow> real"

text \<open>\<^verbatim>\<open>nn.Linear(i, o, bias=False)\<close> and \<^verbatim>\<open>nn.Embedding(rows, width)\<close> with their initial weights.\<close>

definition nn_Linear :: "env \<Rightarrow> nat \<Rightarrow> nat \<Rightarrow> (nat, linear module) prog" where
  "nn_Linear env i o' =
     new_module (\<lambda>n. Inr \<lparr>in_features = i, out_features = o',
        weight = map (\<lambda>r. map (\<lambda>c. linear_init env n r c) [0..<i]) [0..<o']\<rparr>)"

definition nn_Embedding :: "env \<Rightarrow> int \<Rightarrow> nat \<Rightarrow> (nat, embedding module) prog" where
  "nn_Embedding env rows width =
     new_module (\<lambda>n. if rows < 0 then Inl RuntimeError
        else Inr \<lparr>num_embeddings = nat rows, embedding_width = width,
          table = map (\<lambda>r. map (\<lambda>c. embedding_init env n r c) [0..<width]) [0..<nat rows]\<rparr>)"

section \<open>The constructors\<close>

text \<open>The constructor arguments that \<^verbatim>\<open>__init__\<close> of the two classes reads itself.\<close>

record args =
  arg_dnn_feature_columns :: "feature_column list"
  arg_num_domains :: int
  arg_num_experts :: int
  arg_expert_dnn_hidden_units :: "nat list"
  arg_gate_dnn_hidden_units :: "nat list"
  arg_tower_dnn_hidden_units :: "nat list"
  arg_task_types :: "string list"
  arg_task_names :: "string list"
  arg_domain_column :: "string option"
  arg_flag :: "string option"
  arg_domain_id_as_feature :: bool

text \<open>
  The attributes of a built model. \<^verbatim>\<open>MMOE_MT\<close> has one LHUC block and no
  \<^verbatim>\<open>target_attention\<close>; \<^verbatim>\<open>MMOE_MT_ATT\<close> has one LHUC block and one attention layer per
  task. \<^verbatim>\<open>int_layers\<close>, \<^verbatim>\<open>gate_dnn\<close> and \<^verbatim>\<open>tower_dnn\<close> are set under a condition.
\<close>

record ('l, 't) mmoe = base_model +
  num_tasks :: nat
  domain_column :: "string option"
  flag :: "string option"
  num_experts :: int
  task_names :: "string list"
  input_dim :: nat
  expert_dnn_hidden_units :: "nat list"
  gate_dnn_hidden_units :: "nat list"
  tower_dnn_hidden_units :: "nat list"
  int_layers :: "layer module list option"
  expert_dnn :: "layer module list"
  gate_dnn :: "layer module list option"
  gate_dnn_final_layer :: "linear module list"
  tower_dnn :: "layer module list option"
  tower_dnn_final_layer :: "linear module list"
  out :: "layer module list"
  domain_embeddings :: "embedding module"
  lhuc :: 'l
  target_attention :: 't

type_synonym mmoe_mt = "(torch_layer module list, unit) mmoe"

type_synonym mmoe_mt_att = "(torch_layer module list list, layer2 module list) mmoe"

text \<open>Lines 68-70: the loop over \<^verbatim>\<open>task_types\<close>.\<close>

fun check_task_types :: "string list \<Rightarrow> unit result" where
  "check_task_types [] = Inr ()"
| "check_task_types (task_type # rest) =
     (if task_type \<notin> set [''binary'', ''regression''] then Inl ValueError
      else check_task_types rest)"

text \<open>Lines 59-70 of both files: the argument checks.\<close>

definition check_args :: "args \<Rightarrow> unit result" where
  "check_args a =
     (if length (arg_task_names a) \<le> 1 then Inl ValueError
      else if arg_num_experts a \<le> 1 then Inl ValueError
      else if length (arg_dnn_feature_columns a) = 0 then Inl ValueError
      else if length (arg_task_types a) \<noteq> length (arg_task_names a) then Inl ValueError
      else check_task_types (arg_task_types a))"

text \<open>
  \<^verbatim>\<open>feat.name not in filtered_col_names\<close>: the test Python makes depends on what
  \<^verbatim>\<open>filtered_col_names\<close> is. The constructor passes \<^verbatim>\<open>domain_column\<close>, a string or
  \<^verbatim>\<open>None\<close>.
\<close>

datatype col_names = NoNames | StrNames string | ListNames "string list"

definition name_in :: "string \<Rightarrow> col_names \<Rightarrow> bool result" where
  "name_in n cs =
     (case cs of
        NoNames \<Rightarrow> Inl TypeError
      | StrNames s \<Rightarrow> Inr (str_contains n s)
      | ListNames ns \<Rightarrow> Inr (n \<in> set ns))"

fun filter_feature_columns :: "feature_column list \<Rightarrow> col_names \<Rightarrow> feature_column list result" where
  "filter_feature_columns [] filtered_col_names = Inr []"
| "filter_feature_columns (feat # feature_columns) filtered_col_names =
     rbind (name_in (name feat) filtered_col_names) (\<lambda>b.
     rbind (filter_feature_columns feature_columns filtered_col_names) (\<lambda>rest.
     Inr (if \<not> b then feat # rest else rest)))"

definition as_col_names :: "string option \<Rightarrow> col_names" where
  "as_col_names c = (case c of None \<Rightarrow> NoNames | Some s \<Rightarrow> StrNames s)"

text \<open>
  The attributes that lines 78-114 build, the same in both files. Each definition is one
  assignment of the source; \<open>in_dim\<close> is \<^verbatim>\<open>self.input_dim\<close>.
\<close>

definition int_layers_init ::
    "env \<Rightarrow> base_model \<Rightarrow> bool \<Rightarrow> (nat, layer module list option) prog" where
  "int_layers_init env self0 usetrans =
     (if usetrans
      then pbind (for_each [0..<3] (\<lambda>_.
               new_module (\<lambda>n. SelfAttention_Layer env n (embedding_dim self0) 4 True)))
             (\<lambda>ls. ret (Some ls))
      else ret None)"

definition expert_dnn_init :: "env \<Rightarrow> args \<Rightarrow> nat \<Rightarrow> (nat, layer module list) prog" where
  "expert_dnn_init env a in_dim =
     for_each [0..<nat (arg_num_experts a)] (\<lambda>_.
       new_module (\<lambda>n. DNN env n in_dim (arg_expert_dnn_hidden_units a)))"

definition gate_dnn_init ::
    "env \<Rightarrow> args \<Rightarrow> nat \<Rightarrow> (nat, layer module list option) prog" where
  "gate_dnn_init env a in_dim =
     (if length (arg_gate_dnn_hidden_units a) > 0
      then pbind (for_each [0..<length (arg_task_names a)] (\<lambda>_.
               new_module (\<lambda>n. DNN env n in_dim (arg_gate_dnn_hidden_units a))))
             (\<lambda>ls. ret (Some ls))
      else ret None)"

definition gate_dnn_final_layer_init ::
    "env \<Rightarrow> args \<Rightarrow> nat \<Rightarrow> (nat, linear module list) prog" where
  "gate_dnn_final_layer_init env a in_dim =
     for_each [0..<length (arg_task_names a)] (\<lambda>_.
       pbind (lift (if length (arg_gate_dnn_hidden_units a) > 0
                    then py_last (arg_gate_dnn_hidden_units a) else Inr in_dim))
         (\<lambda>i. nn_Linear env i (nat (arg_num_experts a))))"

definition tower_dnn_init :: "env \<Rightarrow> args \<Rightarrow> (nat, layer module list option) prog" where
  "tower_dnn_init env a =
     (if length (arg_tower_dnn_hidden_units a) > 0
      then pbind (for_each [0..<length (arg_task_names a)] (\<lambda>_.
               pbind (lift (py_last (arg_expert_dnn_hidden_units a)))
                 (\<lambda>i. new_module (\<lambda>n. DNN env n i (arg_tower_dnn_hidden_units a)))))
             (\<lambda>ls. ret (Some ls))
      else ret None)"

definition tower_dnn_final_layer_init :: "env \<Rightarrow> args \<Rightarrow> (nat, linear module list) prog" where
  "tower_dnn_final_layer_init env a =
     for_each [0..<length (arg_task_names a)] (\<lambda>_.
       pbind (lift (if length (arg_tower_dnn_hidden_units a) > 0
                    then py_last (arg_tower_dnn_hidden_units a)
                    else py_last (arg_expert_dnn_hidden_units a)))
         (\<lambda>i. nn_Linear env i 1))"

definition out_init :: "env \<Rightarrow> args \<Rightarrow> (nat, layer module list) prog" where
  "out_init env a =
     for_each (arg_task_types a) (\<lambda>task. new_module (\<lambda>n. PredictionLayer env n task))"

text \<open>
  Lines 122-126: the local variable \<^verbatim>\<open>dnn_feature_columns\<close> after the branch on
  \<^verbatim>\<open>domain_id_as_feature\<close>. Nothing reads it afterwards, nor \<^verbatim>\<open>field_num\<close>.
\<close>

definition local_dnn_feature_columns :: "args \<Rightarrow> feature_column list result" where
  "local_dnn_feature_columns a =
     (if arg_domain_id_as_feature a then Inr (arg_dnn_feature_columns a)
      else filter_feature_columns (arg_dnn_feature_columns a)
             (as_col_names (arg_domain_column a)))"

text \<open>
  Lines 55-130, the same in both files. The calls of \<^verbatim>\<open>add_regularization_weight\<close> and
  \<^verbatim>\<open>self.to(device)\<close> are left out: they register parameters for the training loss and
  move them, and set none of the attributes below. \<open>tail\<close> is what follows line 130: it
  builds \<^verbatim>\<open>self.lhuc\<close> and, in \<^verbatim>\<open>MMOE_MT_ATT\<close>, \<^verbatim>\<open>self.target_attention\<close>.
\<close>

definition mmoe_init ::
    "env \<Rightarrow> base_model \<Rightarrow> args \<Rightarrow> (nat, 'l \<times> 't) prog \<Rightarrow> (nat, ('l, 't) mmoe) prog" where
  "mmoe_init env self0 a tail =
     pbind (lift (check_args a)) (\<lambda>_.
     let in_dim = compute_input_dim env (arg_dnn_feature_columns a) in
     pbind (lift (usetrans_in (arg_flag a))) (\<lambda>usetrans.
     pbind (int_layers_init env self0 usetrans) (\<lambda>int_ls.
     pbind (expert_dnn_init env a in_dim) (\<lambda>experts.
     pbind (gate_dnn_init env a in_dim) (\<lambda>gates.
     pbind (gate_dnn_final_layer_init env a in_dim) (\<lambda>gate_finals.
     pbind (tower_dnn_init env a) (\<lambda>towers.
     pbind (tower_dnn_final_layer_init env a) (\<lambda>tower_finals.
     pbind (out_init env a) (\<lambda>outs.
     pbind (lift (local_dnn_feature_columns a)) (\<lambda>_.
     pbind (nn_Embedding env (arg_num_domains a + 1) (embedding_size self0)) (\<lambda>domain_embs.
     pbind tail (\<lambda>(l, t).
     ret \<lparr>dnn_feature_columns = dnn_feature_columns self0,
          embedding_size = embedding_size self0,
          embedding_dim = embedding_dim self0,
          feature_index = feature_index self0,
          num_tasks = length (arg_task_names a),
          domain_column = arg_domain_column a,
          flag = arg_flag a,
          num_experts = arg_num_experts a,
          task_names = arg_task_names a,
          input_dim = in_dim,
          expert_dnn_hidden_units = arg_expert_dnn_hidden_units a,
          gate_dnn_hidden_units = arg_gate_dnn_hidden_units a,
          tower_dnn_hidden_units = arg_tower_dnn_hidden_units a,
          int_layers = int_ls,
          expert_dnn = experts,
          gate_dnn = gates,
          gate_dnn_final_layer = gate_finals,
          tower_dnn = towers,
          tower_dnn_final_layer = tower_finals,
          out = outs,
          domain_embeddings = domain_embs,
          lhuc = l,
          target_attention = t\<rparr>))))))))))))"

text \<open>Lines 131-136: one LHUC block, four layers.\<close>

definition lhuc_block :: "env \<Rightarrow> nat \<Rightarrow> (nat, torch_layer module list) prog" where
  "lhuc_block env emb_size =
     pbind (nn_Linear env emb_size 128) (\<lambda>l1.
     pbind (new_module (\<lambda>n. Inr ReLU)) (\<lambda>r.
     pbind (nn_Linear env 128 64) (\<lambda>l2.
     pbind (new_module (\<lambda>n. Inr Sigmoid)) (\<lambda>s.
     ret [Module (mid l1) (Linear (impl l1)), r, Module (mid l2) (Linear (impl l2)), s]))))"

definition MMOE_MT_init :: "env \<Rightarrow> base_model \<Rightarrow> args \<Rightarrow> (nat, mmoe_mt) prog" where
  "MMOE_MT_init env self0 a =
     mmoe_init env self0 a
       (pbind (lhuc_block env (embedding_size self0)) (\<lambda>l. ret (l, ())))"

text \<open>Lines 131-137 of \<^verbatim>\<open>mmoe_mt_att.py\<close>: an LHUC block and an attention layer per task.\<close>

definition MMOE_MT_ATT_init :: "env \<Rightarrow> base_model \<Rightarrow> args \<Rightarrow> (nat, mmoe_mt_att) prog" where
  "MMOE_MT_ATT_init env self0 a =
     mmoe_init env self0 a
       (pbind (for_each [0..<length (arg_task_names a)] (\<lambda>_.
                 lhuc_block env (embedding_size self0))) (\<lambda>ls.
        pbind (for_each [0..<length (arg_task_names a)] (\<lambda>_.
                 new_module (\<lambda>n. Attention_Layer env n (embedding_size self0) 4 True))) (\<lambda>ts.
        ret (ls, ts))))"

section \<open>The forward passes\<close>

text \<open>\<^verbatim>\<open>concat_fun\<close>, lines 17-21 of both files.\<close>

definition concat_fun :: "tensor list \<Rightarrow> int \<Rightarrow> tensor result" where
  "concat_fun inputs axis =
     (if length inputs = 1 then Inr (hd inputs) else cat inputs axis)"

text \<open>\<^verbatim>\<open>for layer in layers: x = layer(x)\<close> over a \<^verbatim>\<open>ModuleList\<close>.\<close>

fun call_chain ::
    "('a \<Rightarrow> tensor \<Rightarrow> tensor result) \<Rightarrow> string \<Rightarrow> nat list \<Rightarrow> nat \<Rightarrow> 'a module list \<Rightarrow>
     tensor \<Rightarrow> (event list, tensor) prog" where
  "call_chain run a idx j [] x = ret x"
| "call_chain run a idx j (M # Ms) x =
     pbind (invoke a (idx @ [j]) M [TensorArg x] (\<lambda>l. run l x)) (\<lambda>y. call_chain run a idx (Suc j) Ms y)"

text \<open>
  Lines 139-140: the embeddings and the dense values of the features in
  \<^verbatim>\<open>self.dnn_feature_columns\<close>.
\<close>

definition forward_inputs ::
    "env \<Rightarrow> ('l, 't) mmoe \<Rightarrow> tensor \<Rightarrow> (tensor list \<times> tensor list) result" where
  "forward_inputs env self X = input_from_feature_columns env X (dnn_feature_columns self)"

text \<open>Lines 139-156 (140-157 in \<^verbatim>\<open>mmoe_mt_att.py\<close>): the input of the experts and gates.\<close>

definition dnn_input :: "env \<Rightarrow> ('l, 't) mmoe \<Rightarrow> tensor \<Rightarrow> (event list, tensor) prog" where
  "dnn_input env self X =
     pbind (lift (forward_inputs env self X))
       (\<lambda>(sparse_embedding_list, dense_value_list).
     pbind (lift (usetrans_in (flag self))) (\<lambda>usetrans.
     if usetrans then
       pbind (lift (concat_fun sparse_embedding_list 1)) (\<lambda>att_input.
       pbind (lift (attr (int_layers self))) (\<lambda>layers.
       pbind (call_chain (\<lambda>l. l) ''int_layers'' [] 0 layers att_input) (\<lambda>att_input.
       pbind (lift (flatten1 att_input)) (\<lambda>att_output.
       if length dense_value_list > 0 then
         pbind (lift (concat_fun dense_value_list 1)) (\<lambda>dense_input.
         lift (concat_fun [att_output, dense_input] (- 1)))
       else ret att_output))))
     else lift (combined_dnn_input env sparse_embedding_list dense_value_list)))"

text \<open>
  The input of the experts and gates as the specification describes it under
  \<^verbatim>\<open>'usetrans'\<close>: the concatenated sparse embeddings through three stacked
  self-attention layers, flattened, and concatenated with the concatenated dense values
  when there are any.
\<close>

definition stacked_self_attention_input ::
    "layer \<Rightarrow> layer \<Rightarrow> layer \<Rightarrow> tensor list \<Rightarrow> tensor list \<Rightarrow> tensor result" where
  "stacked_self_attention_input l0 l1 l2 sparse dense =
     rbind (concat_fun sparse 1) (\<lambda>x0.
     rbind (l0 x0) (\<lambda>x1.
     rbind (l1 x1) (\<lambda>x2.
     rbind (l2 x2) (\<lambda>x3.
     rbind (flatten1 x3) (\<lambda>att_output.
     if dense \<noteq> [] then rbind (concat_fun dense 1) (\<lambda>dense_input.
                            concat_fun [att_output, dense_input] (- 1))
     else Inr att_output)))))"

text \<open>Lines 160-164: every expert on the same input, the outputs stacked.\<close>

definition expert_outs :: "('l, 't) mmoe \<Rightarrow> tensor \<Rightarrow> (event list, tensor) prog" where
  "expert_outs self x =
     pbind (for_each [0..<nat (num_experts self)] (\<lambda>i.
              pbind (lift (get (expert_dnn self) i)) (\<lambda>M.
              invoke ''expert_dnn'' [i] M [TensorArg x] (\<lambda>f. f x)))) (\<lambda>outs.
     lift (stack1 outs))"

text \<open>Lines 169-173: the gate of task \<open>i\<close>, up to its final linear layer.\<close>

definition gate_dnn_out :: "('l, 't) mmoe \<Rightarrow> tensor \<Rightarrow> nat \<Rightarrow> (event list, tensor) prog" where
  "gate_dnn_out self x i =
     (if length (gate_dnn_hidden_units self) > 0 then
        pbind (lift (rbind (attr (gate_dnn self)) (\<lambda>g. get g i))) (\<lambda>M.
        pbind (invoke ''gate_dnn'' [i] M [TensorArg x] (\<lambda>f. f x)) (\<lambda>h.
        pbind (lift (get (gate_dnn_final_layer self) i)) (\<lambda>L.
        invoke ''gate_dnn_final_layer'' [i] L [TensorArg h] (\<lambda>l. linear_apply l h))))
      else
        pbind (lift (get (gate_dnn_final_layer self) i)) (\<lambda>L.
        invoke ''gate_dnn_final_layer'' [i] L [TensorArg x] (\<lambda>l. linear_apply l x)))"

text \<open>Lines 174-175: the mixture of the expert outputs under the gate's softmax.\<close>

definition gate_mul_expert :: "tensor \<Rightarrow> tensor \<Rightarrow> tensor result" where
  "gate_mul_expert gate_out experts =
     rbind (softmax1 gate_out) (\<lambda>w.
     rbind (unsqueeze1 w) (\<lambda>w1.
     matmul w1 experts))"

text \<open>Lines 168-175: one round of the loop over the tasks, and the loop.\<close>

definition mmoe_out :: "('l, 't) mmoe \<Rightarrow> tensor \<Rightarrow> tensor \<Rightarrow> nat \<Rightarrow> (event list, tensor) prog" where
  "mmoe_out self x experts i =
     pbind (gate_dnn_out self x i) (\<lambda>g.
     pbind (lift (gate_mul_expert g experts)) (\<lambda>m.
     ret (squeeze m)))"

definition mmoe_outs :: "('l, 't) mmoe \<Rightarrow> tensor \<Rightarrow> tensor \<Rightarrow> (event list, tensor list) prog" where
  "mmoe_outs self x experts = for_each [0..<num_tasks self] (mmoe_out self x experts)"

text \<open>
  The softmax weight of expert \<open>e\<close> in row \<open>r\<close>, for gate outputs \<open>gs\<close> of \<open>E\<close> experts
  per row.
\<close>

definition softmax_row :: "real list \<Rightarrow> nat \<Rightarrow> nat \<Rightarrow> nat \<Rightarrow> real" where
  "softmax_row gs E r e =
     exp (gs ! (r * E + e)) / (\<Sum>e'\<leftarrow>[0..<E]. exp (gs ! (r * E + e')))"

text \<open>Lines 179-180 (189-190): the domain ids of the batch and their embeddings.\<close>

definition domain_ids :: "('l, 't) mmoe \<Rightarrow> tensor \<Rightarrow> itensor result" where
  "domain_ids self X =
     rbind (case domain_column self of
              None \<Rightarrow> Inl KeyError
            | Some c \<Rightarrow> (case feature_index self c of
                           None \<Rightarrow> Inl KeyError
                         | Some (first, _) \<Rightarrow> Inr first)) (\<lambda>c.
     rbind (select_col X c) (\<lambda>col. Inr (long col)))"

definition domain_emb :: "('l, 't) mmoe \<Rightarrow> tensor \<Rightarrow> (event list, tensor) prog" where
  "domain_emb self X =
     pbind (lift (domain_ids self X)) (\<lambda>ids.
     invoke ''domain_embeddings'' [] (domain_embeddings self) [IndexArg ids]
       (\<lambda>E. embedding_apply E ids))"

text \<open>The last steps of a tower, lines 195-198 (205-208).\<close>

definition tower_logit_out ::
    "('l, 't) mmoe \<Rightarrow> nat \<Rightarrow> tensor \<Rightarrow> (event list, tensor) prog" where
  "tower_logit_out self i t =
     pbind (lift (get (tower_dnn_final_layer self) i)) (\<lambda>L.
     pbind (invoke ''tower_dnn_final_layer'' [i] L [TensorArg t] (\<lambda>l. linear_apply l t)) (\<lambda>tower_dnn_logit.
     pbind (lift (get (out self) i)) (\<lambda>P.
     invoke ''out'' [i] P [TensorArg tower_dnn_logit] (\<lambda>f. f tower_dnn_logit))))"

text \<open>\<^verbatim>\<open>MMOE_MT.forward\<close>, lines 182-185: the LHUC block on the domain embedding, doubled.\<close>

definition lhuc_output :: "mmoe_mt \<Rightarrow> tensor \<Rightarrow> (event list, tensor) prog" where
  "lhuc_output self demb =
     pbind (call_chain torch_layer_apply ''lhuc'' [] 0 (lhuc self) demb) (\<lambda>y.
     ret (scale 2 y))"

text \<open>\<^verbatim>\<open>MMOE_MT.forward\<close>, lines 190-199: the tower of task \<open>i\<close>.\<close>

definition MMOE_MT_tower ::
    "mmoe_mt \<Rightarrow> tensor \<Rightarrow> tensor list \<Rightarrow> nat \<Rightarrow> (event list, tensor) prog" where
  "MMOE_MT_tower self lhuc_out mmoe i =
     (if length (tower_dnn_hidden_units self) > 0 then
        pbind (lift (rbind (attr (tower_dnn self)) (\<lambda>ts. get ts i))) (\<lambda>M.
        pbind (lift (get mmoe i)) (\<lambda>m.
        pbind (invoke ''tower_dnn'' [i] M [TensorArg m] (\<lambda>f. f m)) (\<lambda>tower_dnn_out.
        pbind (lift (mul tower_dnn_out lhuc_out)) (\<lambda>tower_dnn_out.
        tower_logit_out self i tower_dnn_out))))
      else
        pbind (lift (get mmoe i)) (\<lambda>m. tower_logit_out self i m))"

definition MMOE_MT_forward :: "env \<Rightarrow> mmoe_mt \<Rightarrow> tensor \<Rightarrow> (event list, tensor) prog" where
  "MMOE_MT_forward env self X =
     pbind (dnn_input env self X) (\<lambda>x.
     pbind (expert_outs self x) (\<lambda>experts.
     pbind (mmoe_outs self x experts) (\<lambda>mmoe.
     pbind (domain_emb self X) (\<lambda>demb.
     pbind (lhuc_output self demb) (\<lambda>lhuc_out.
     pbind (for_each [0..<num_tasks self] (MMOE_MT_tower self lhuc_out mmoe)) (\<lambda>task_outs.
     lift (cat task_outs (- 1))))))))"

text \<open>
  \<^verbatim>\<open>MMOE_MT_ATT.forward\<close>, lines 199-204: the factor that rescales the tower output of
  task \<open>i\<close>.
\<close>

definition att_factor ::
    "mmoe_mt_att \<Rightarrow> nat \<Rightarrow> tensor \<Rightarrow> tensor \<Rightarrow> (event list, tensor) prog" where
  "att_factor self i tower_dnn_out demb =
     pbind (lift (get (target_attention self) i)) (\<lambda>A.
     pbind (invoke ''target_attention'' [i] A [TensorArg tower_dnn_out, TensorArg demb]
              (\<lambda>f. f tower_dnn_out demb)) (\<lambda>att.
     pbind (lift (get (lhuc self) i)) (\<lambda>layers.
     call_chain torch_layer_apply ''lhuc'' [i] 0 layers att)))"

definition MMOE_MT_ATT_tower ::
    "mmoe_mt_att \<Rightarrow> tensor \<Rightarrow> tensor list \<Rightarrow> nat \<Rightarrow> (event list, tensor) prog" where
  "MMOE_MT_ATT_tower self demb mmoe i =
     (if length (tower_dnn_hidden_units self) > 0 then
        pbind (lift (rbind (attr (tower_dnn self)) (\<lambda>ts. get ts i))) (\<lambda>M.
        pbind (lift (get mmoe i)) (\<lambda>m.
        pbind (invoke ''tower_dnn'' [i] M [TensorArg m] (\<lambda>f. f m)) (\<lambda>tower_dnn_out.
        pbind (att_factor self i tower_dnn_out demb) (\<lambda>att.
        pbind (lift (mul tower_dnn_out att)) (\<lambda>tower_dnn_out.
        tower_logit_out self i tower_dnn_out)))))
      else
        pbind (lift (get mmoe i)) (\<lambda>m. tower_logit_out self i m))"

definition MMOE_MT_ATT_forward ::
    "env \<Rightarrow> mmoe_mt_att \<Rightarrow> tensor \<Rightarrow> (event list, tensor) prog" where
  "MMOE_MT_ATT_forward env self X =
     pbind (dnn_input env self X) (\<lambda>x.
     pbind (expert_outs self x) (\<lambda>experts.
     pbind (mmoe_outs self x experts) (\<lambda>mmoe.
     pbind (domain_emb self X) (\<lambda>demb.
     pbind (for_each [0..<num_tasks self] (MMOE_MT_ATT_tower self demb mmoe)) (\<lambda>task_outs.
     lift (cat task_outs (- 1)))))))"

section \<open>A concrete setting\<close>

text \<open>
  One instance of what the classes take from outside, for running the constructors and
  the forward passes on concrete inputs. Every feature is a sparse feature whose
  embedding has width 1 and maps the id in its column of \<open>X\<close> to itself; the layers of
  \<^verbatim>\<open>deepctr_torch\<close> have the shapes of the library (a \<^verbatim>\<open>DNN\<close> is linear layers with
  \<^verbatim>\<open>relu\<close>, a \<^verbatim>\<open>PredictionLayer\<close> is a sigmoid for a binary task); all weights start at 0.
\<close>

fun rmap :: "('a \<Rightarrow> 'b result) \<Rightarrow> 'a list \<Rightarrow> 'b list result" where
  "rmap f [] = Inr []"
| "rmap f (x # xs) = rbind (f x) (\<lambda>y. rbind (rmap f xs) (\<lambda>ys. Inr (y # ys)))"

definition ex_input_from_feature_columns ::
    "tensor \<Rightarrow> feature_column list \<Rightarrow> (tensor list \<times> tensor list) result" where
  "ex_input_from_feature_columns X cols =
     rbind (rmap (\<lambda>j. rbind (select_col X j) (\<lambda>c. Inr (Tensor (shape c @ [1, 1]) (data c))))
              [0..<length cols]) (\<lambda>sparse. Inr (sparse, []))"

definition ex_combined_dnn_input :: "tensor list \<Rightarrow> tensor list \<Rightarrow> tensor result" where
  "ex_combined_dnn_input sparse dense =
     (if sparse \<noteq> [] \<and> dense \<noteq> [] then
        rbind (rbind (cat sparse (- 1)) flatten1) (\<lambda>s.
        rbind (rbind (cat dense (- 1)) flatten1) (\<lambda>d. concat_fun [s, d] (- 1)))
      else if sparse \<noteq> [] then rbind (cat sparse (- 1)) flatten1
      else if dense \<noteq> [] then rbind (cat dense (- 1)) flatten1
      else Inl NotImplementedError)"

definition zero_linear :: "nat \<Rightarrow> nat \<Rightarrow> linear" where
  "zero_linear i o' =
     \<lparr>in_features = i, out_features = o',
      weight = map (\<lambda>r. map (\<lambda>c. 0) [0..<i]) [0..<o']\<rparr>"

fun ex_dnn_run :: "(nat \<times> nat) list \<Rightarrow> layer" where
  "ex_dnn_run [] x = Inr x"
| "ex_dnn_run ((i, o') # ls) x =
     rbind (linear_apply (zero_linear i o') x) (\<lambda>y. ex_dnn_run ls (pointwise relu y))"

definition ex_DNN :: "nat \<Rightarrow> nat \<Rightarrow> nat list \<Rightarrow> layer result" where
  "ex_DNN n inputs_dim hidden_units =
     (if hidden_units = [] then Inl ValueError
      else Inr (ex_dnn_run (zip (inputs_dim # butlast hidden_units) hidden_units)))"

definition ex_PredictionLayer :: "nat \<Rightarrow> string \<Rightarrow> layer result" where
  "ex_PredictionLayer n task =
     (if task \<notin> set [''binary'', ''multiclass'', ''regression''] then Inl ValueError
      else Inr (\<lambda>x. Inr (if task = ''binary'' then pointwise sigmoid x else x)))"

definition ex_env :: env where
  "ex_env =
     \<lparr>input_from_feature_columns = ex_input_from_feature_columns,
      combined_dnn_input = ex_combined_dnn_input,
      compute_input_dim = length,
      DNN = ex_DNN,
      SelfAttention_Layer = (\<lambda>n d heads residual. Inr (\<lambda>x. Inr x)),
      Attention_Layer = (\<lambda>n d heads residual. Inr (\<lambda>q k. Inr k)),
      PredictionLayer = ex_PredictionLayer,
      linear_init = (\<lambda>n r c. 0),
      embedding_init = (\<lambda>n r c. 0)\<rparr>"

definition ex_columns :: "feature_column list" where
  "ex_columns = [\<lparr>name = ''101''\<rparr>, \<lparr>name = ''301''\<rparr>]"

definition ex_self0 :: base_model where
  "ex_self0 =
     \<lparr>dnn_feature_columns = ex_columns, embedding_size = 1, embedding_dim = 1,
      feature_index = [''101'' \<mapsto> (0, 1), ''301'' \<mapsto> (1, 2)]\<rparr>"

text \<open>The defaults of lines 47-51, for given feature columns and a given number of domains.\<close>

definition default_args :: "feature_column list \<Rightarrow> int \<Rightarrow> args" where
  "default_args cols n_domains =
     \<lparr>arg_dnn_feature_columns = cols, arg_num_domains = n_domains, arg_num_experts = 3,
      arg_expert_dnn_hidden_units = [256, 128], arg_gate_dnn_hidden_units = [64],
      arg_tower_dnn_hidden_units = [64], arg_task_types = [''binary'', ''binary''],
      arg_task_names = [''ctr'', ''ctcvr''], arg_domain_column = None, arg_flag = None,
      arg_domain_id_as_feature = False\<rparr>"

text \<open>The defaults with the domain column and the flag of the runs at the end of the files.\<close>

definition ex_args :: args where
  "ex_args = (default_args ex_columns 3)
     \<lparr>arg_domain_column := Some ''301'', arg_flag := Some ''sota''\<rparr>"

text \<open>The same with self-attention over the feature embeddings.\<close>

definition usetrans_args :: args where
  "usetrans_args = ex_args\<lparr>arg_flag := Some ''sota_usetrans''\<rparr>"

text \<open>A batch of one row: the id 5 in column \<^verbatim>\<open>'101'\<close>, the domain id 1 in column \<^verbatim>\<open>'301'\<close>.\<close>

definition ex_X1 :: tensor where
  "ex_X1 = Tensor [1, 2] [5, 1]"

text \<open>One task instead of two.\<close>

definition one_task_args :: args where
  "one_task_args = ex_args\<lparr>arg_task_types := [''binary''], arg_task_names := [''ctr'']\<rparr>"

text \<open>One expert, and the default flag.\<close>

definition one_expert_args :: args where
  "one_expert_args = (default_args ex_columns 3)\<lparr>arg_num_experts := 1\<rparr>"

text \<open>
  Small layers: two experts, hidden layers of width 2 for the experts and the gates, and
  the default tower. \<open>bug_args\<close> is the same with no tower hidden layer
  (\<^verbatim>\<open>tower_dnn_hidden_units=()\<close>).
\<close>

definition small_args :: args where
  "small_args = ex_args\<lparr>arg_num_experts := 2, arg_expert_dnn_hidden_units := [2],
     arg_gate_dnn_hidden_units := [2]\<rparr>"

definition bug_args :: args where
  "bug_args = small_args\<lparr>arg_tower_dnn_hidden_units := []\<rparr>"

text \<open>
  The models that \<^verbatim>\<open>MMOE_MT(...)\<close> returns for \<open>small_args\<close> and for \<open>bug_args\<close> in the
  concrete setting, with the identities of their modules in the order they are built.
\<close>

definition zero_lhuc :: "nat \<Rightarrow> nat \<Rightarrow> torch_layer module list" where
  "zero_lhuc n e =
     [Module n (Linear (zero_linear e 128)), Module (n + 1) ReLU,
      Module (n + 2) (Linear (zero_linear 128 64)), Module (n + 3) Sigmoid]"

definition zero_embedding :: "nat \<Rightarrow> nat \<Rightarrow> embedding" where
  "zero_embedding rows width =
     \<lparr>num_embeddings = rows, embedding_width = width,
      table = replicate rows (replicate width 0)\<rparr>"

definition ex_sigmoid_layer :: layer where
  "ex_sigmoid_layer = (\<lambda>x. Inr (pointwise sigmoid x))"

definition small_model :: mmoe_mt where
  "small_model =
     \<lparr>dnn_feature_columns = ex_columns, embedding_size = 1, embedding_dim = 1,
      feature_index = [''101'' \<mapsto> (0, 1), ''301'' \<mapsto> (1, 2)],
      num_tasks = 2, domain_column = Some ''301'', flag = Some ''sota'', num_experts = 2,
      task_names = [''ctr'', ''ctcvr''], input_dim = 2,
      expert_dnn_hidden_units = [2], gate_dnn_hidden_units = [2],
      tower_dnn_hidden_units = [64], int_layers = None,
      expert_dnn = [Module 0 (ex_dnn_run [(2, 2)]), Module 1 (ex_dnn_run [(2, 2)])],
      gate_dnn = Some [Module 2 (ex_dnn_run [(2, 2)]), Module 3 (ex_dnn_run [(2, 2)])],
      gate_dnn_final_layer = [Module 4 (zero_linear 2 2), Module 5 (zero_linear 2 2)],
      tower_dnn = Some [Module 6 (ex_dnn_run [(2, 64)]), Module 7 (ex_dnn_run [(2, 64)])],
      tower_dnn_final_layer = [Module 8 (zero_linear 64 1), Module 9 (zero_linear 64 1)],
      out = [Module 10 ex_sigmoid_layer, Module 11 ex_sigmoid_layer],
      domain_embeddings = Module 12 (zero_embedding 4 1),
      lhuc = zero_lhuc 13 1,
      target_attention = ()\<rparr>"

definition bug_model :: mmoe_mt where
  "bug_model =
     \<lparr>dnn_feature_columns = ex_columns, embedding_size = 1, embedding_dim = 1,
      feature_index = [''101'' \<mapsto> (0, 1), ''301'' \<mapsto> (1, 2)],
      num_tasks = 2, domain_column = Some ''301'', flag = Some ''sota'', num_experts = 2,
      task_names = [''ctr'', ''ctcvr''], input_dim = 2,
      expert_dnn_hidden_units = [2], gate_dnn_hidden_units = [2],
      tower_dnn_hidden_units = [], int_layers = None,
      expert_dnn = [Module 0 (ex_dnn_run [(2, 2)]), Module 1 (ex_dnn_run [(2, 2)])],
      gate_dnn = Some [Module 2 (ex_dnn_run [(2, 2)]), Module 3 (ex_dnn_run [(2, 2)])],
      gate_dnn_final_layer = [Module 4 (zero_linear 2 2), Module 5 (zero_linear 2 2)],
      tower_dnn = None,
      tower_dnn_final_layer = [Module 6 (zero_linear 2 1), Module 7 (zero_linear 2 1)],
      out = [Module 8 ex_sigmoid_layer, Module 9 ex_sigmoid_layer],
      domain_embeddings = Module 10 (zero_embedding 4 1),
      lhuc = zero_lhuc 11 1,
      target_attention = ()\<rparr>"

text \<open>
  A model with another LHUC part and other attention layers, the rest unchanged; and the
  models that \<^verbatim>\<open>MMOE_MT_ATT(...)\<close> returns for \<open>small_args\<close> and for \<open>bug_args\<close>.
\<close>

definition with_lhuc :: "('l, 't) mmoe \<Rightarrow> 'k \<Rightarrow> 'u \<Rightarrow> ('k, 'u) mmoe" where
  "with_lhuc m l t =
     \<lparr>dnn_feature_columns = dnn_feature_columns m, embedding_size = embedding_size m,
      embedding_dim = embedding_dim m, feature_index = feature_index m,
      num_tasks = num_tasks m, domain_column = domain_column m, flag = flag m,
      num_experts = num_experts m, task_names = task_names m, input_dim = input_dim m,
      expert_dnn_hidden_units = expert_dnn_hidden_units m,
      gate_dnn_hidden_units = gate_dnn_hidden_units m,
      tower_dnn_hidden_units = tower_dnn_hidden_units m,
      int_layers = int_layers m, expert_dnn = expert_dnn m, gate_dnn = gate_dnn m,
      gate_dnn_final_layer = gate_dnn_final_layer m, tower_dnn = tower_dnn m,
      tower_dnn_final_layer = tower_dnn_final_layer m, out = out m,
      domain_embeddings = domain_embeddings m, lhuc = l, target_attention = t\<rparr>"

definition ex_attention :: layer2 where
  "ex_attention = (\<lambda>q k. Inr k)"

definition small_att_model :: mmoe_mt_att where
  "small_att_model =
     with_lhuc small_model [zero_lhuc 13 1, zero_lhuc 17 1]
       [Module 21 ex_attention, Module 22 ex_attention]"

definition bug_att_model :: mmoe_mt_att where
  "bug_att_model =
     with_lhuc bug_model [zero_lhuc 11 1, zero_lhuc 15 1]
       [Module 19 ex_attention, Module 20 ex_attention]"

text \<open>A batch of two rows, with the domain ids 1 and 2.\<close>

definition ex_X2 :: tensor where
  "ex_X2 = Tensor [2, 2] [5, 1, 7, 2]"

section \<open>Programs: basic facts\<close>

lemma pbind_Inr_iff:
  "pbind m f s = (Inr y, s') \<longleftrightarrow> (\<exists>x s1. m s = (Inr x, s1) \<and> f x s1 = (Inr y, s'))"
  by (auto simp: pbind_def split: prod.splits sum.splits)

lemma pbind_Inl_iff:
  "pbind m f s = (Inl e, s') \<longleftrightarrow>
     m s = (Inl e, s') \<or> (\<exists>x s1. m s = (Inr x, s1) \<and> f x s1 = (Inl e, s'))"
  by (auto simp: pbind_def split: prod.splits sum.splits)

lemma lift_eq [simp]: "lift r s = (r', s') \<longleftrightarrow> r = r' \<and> s = s'"
  by (auto simp: lift_def)

lemma ret_eq [simp]: "ret x s = (r, s') \<longleftrightarrow> r = Inr x \<and> s = s'"
  by (auto simp: ret_def)

lemma pbind_lift_Inl [simp]: "pbind (lift (Inl e)) f s = (Inl e, s)"
  by (simp add: pbind_def lift_def)

lemma pbind_lift_Inr [simp]: "pbind (lift (Inr x)) f s = f x s"
  by (simp add: pbind_def lift_def)

lemma pbind_ret [simp]: "pbind (ret x) f s = f x s"
  by (simp add: pbind_def ret_def)

lemma succeeds_ret [simp]: "succeeds (ret x)"
  by (simp add: succeeds_def)

lemma succeeds_lift [simp]: "succeeds (lift r) \<longleftrightarrow> (\<exists>x. r = Inr x)"
  by (auto simp: succeeds_def)

lemma succeeds_pbind:
  "succeeds m \<Longrightarrow> (\<And>x. succeeds (f x)) \<Longrightarrow> succeeds (pbind m f)"
  unfolding succeeds_def pbind_Inr_iff by metis

lemma succeeds_for_each:
  "(\<And>x. x \<in> set xs \<Longrightarrow> succeeds (f x)) \<Longrightarrow> succeeds (for_each xs f)"
  by (induction xs) (auto intro!: succeeds_pbind)

lemma succeeds_new_module:
  "(\<And>n. \<exists>x. build n = Inr x) \<Longrightarrow> succeeds (new_module build)"
  unfolding succeeds_def new_module_def
  by (metis (mono_tags, lifting) old.sum.simps(6))

lemma succeeds_nn_Linear [simp]: "succeeds (nn_Linear env i k)"
  by (simp add: nn_Linear_def succeeds_new_module)

lemma succeeds_lhuc_block [simp]: "succeeds (lhuc_block env e)"
  by (auto simp: lhuc_block_def intro!: succeeds_pbind succeeds_new_module)

section \<open>The argument checks\<close>

lemma check_task_types_eq:
  "check_task_types ts =
     (if set ts \<subseteq> {''binary'', ''regression''} then Inr () else Inl ValueError)"
  by (induction ts) auto

lemma check_args_eq:
  "check_args a =
     (if 2 \<le> length (arg_task_names a) \<and> 2 \<le> arg_num_experts a \<and>
         arg_dnn_feature_columns a \<noteq> [] \<and>
         length (arg_task_types a) = length (arg_task_names a) \<and>
         set (arg_task_types a) \<subseteq> {''binary'', ''regression''}
      then Inr () else Inl ValueError)"
  by (auto simp: check_args_def check_task_types_eq)

lemma mmoe_init_check_fails:
  "check_args a = Inl e \<Longrightarrow> mmoe_init env self0 a tail n = (Inl e, n)"
  by (simp add: mmoe_init_def)

lemma mmoe_init_flag_None:
  "check_args a = Inr () \<Longrightarrow> arg_flag a = None \<Longrightarrow>
   mmoe_init env self0 a tail n = (Inl TypeError, n)"
  by (simp add: mmoe_init_def Let_def usetrans_in_def)

text \<open>
  C1 (as amended). The constructors of \<^verbatim>\<open>MMOE_MT\<close> and \<^verbatim>\<open>MMOE_MT_ATT\<close> raise
  \<^verbatim>\<open>ValueError\<close>, with no module built, when the number of tasks is at most 1, when
  \<^verbatim>\<open>num_experts\<close> is at most 1, or when an entry of \<^verbatim>\<open>task_types\<close> is neither
  \<^verbatim>\<open>'binary'\<close> nor \<^verbatim>\<open>'regression'\<close>. With at least two tasks, at least two experts and
  only these two task types, the checks of lines 59-70 pass when moreover the feature
  columns are not empty and there are as many task types as task names.
\<close>

theorem C1_argument_checks:
  "(length (arg_task_names a) \<le> 1 \<or> arg_num_experts a \<le> 1 \<or>
    \<not> set (arg_task_types a) \<subseteq> {''binary'', ''regression''} \<longrightarrow>
      MMOE_MT_init env self0 a n = (Inl ValueError, n) \<and>
      MMOE_MT_ATT_init env self0 a n = (Inl ValueError, n)) \<and>
   (2 \<le> length (arg_task_names a) \<and> 2 \<le> arg_num_experts a \<and>
    set (arg_task_types a) \<subseteq> {''binary'', ''regression''} \<and>
    arg_dnn_feature_columns a \<noteq> [] \<and>
    length (arg_task_types a) = length (arg_task_names a) \<longrightarrow>
      check_args a = Inr ())"
proof (intro conjI impI)
  assume bad: "length (arg_task_names a) \<le> 1 \<or> arg_num_experts a \<le> 1 \<or>
    \<not> set (arg_task_types a) \<subseteq> {''binary'', ''regression''}"
  then have "check_args a = Inl ValueError"
    by (auto simp: check_args_eq)
  then show "MMOE_MT_init env self0 a n = (Inl ValueError, n)"
    and "MMOE_MT_ATT_init env self0 a n = (Inl ValueError, n)"
    by (simp_all add: MMOE_MT_init_def MMOE_MT_ATT_init_def mmoe_init_check_fails)
next
  assume "2 \<le> length (arg_task_names a) \<and> 2 \<le> arg_num_experts a \<and>
    set (arg_task_types a) \<subseteq> {''binary'', ''regression''} \<and>
    arg_dnn_feature_columns a \<noteq> [] \<and>
    length (arg_task_types a) = length (arg_task_names a)"
  then show "check_args a = Inr ()"
    by (simp add: check_args_eq)
qed

theorem C1_argument_checks_witness:
  "MMOE_MT_init ex_env ex_self0 one_expert_args 0 = (Inl ValueError, 0) \<and>
   MMOE_MT_ATT_init ex_env ex_self0 one_expert_args 0 = (Inl ValueError, 0) \<and>
   check_args ex_args = Inr ()"
proof -
  have "arg_num_experts one_expert_args \<le> 1"
    by (simp add: one_expert_args_def default_args_def)
  with C1_argument_checks [of one_expert_args ex_env ex_self0 0]
  have bad: "MMOE_MT_init ex_env ex_self0 one_expert_args 0 = (Inl ValueError, 0) \<and>
      MMOE_MT_ATT_init ex_env ex_self0 one_expert_args 0 = (Inl ValueError, 0)"
    by blast
  have "2 \<le> length (arg_task_names ex_args) \<and> 2 \<le> arg_num_experts ex_args \<and>
      set (arg_task_types ex_args) \<subseteq> {''binary'', ''regression''} \<and>
      arg_dnn_feature_columns ex_args \<noteq> [] \<and>
      length (arg_task_types ex_args) = length (arg_task_names ex_args)"
    by (simp add: ex_args_def default_args_def ex_columns_def)
  with C1_argument_checks [of ex_args ex_env ex_self0 0]
  have "check_args ex_args = Inr ()"
    by blast
  with bad show ?thesis by simp
qed

text \<open>
  C1 as stated fails: one task and three experts are positive counts and the task type
  is \<^verbatim>\<open>'binary'\<close>, yet both constructors raise \<^verbatim>\<open>ValueError\<close> (line 60).
\<close>

theorem C1_counterexample:
  "0 < length (arg_task_names one_task_args) \<and> 0 < arg_num_experts one_task_args \<and>
   set (arg_task_types one_task_args) \<subseteq> {''binary'', ''regression''} \<and>
   check_args one_task_args = Inl ValueError \<and>
   MMOE_MT_init ex_env ex_self0 one_task_args 0 = (Inl ValueError, 0) \<and>
   MMOE_MT_ATT_init ex_env ex_self0 one_task_args 0 = (Inl ValueError, 0)"
proof -
  have c: "check_args one_task_args = Inl ValueError"
    by (simp add: check_args_def one_task_args_def ex_args_def default_args_def)
  then show ?thesis
    by (simp add: MMOE_MT_init_def MMOE_MT_ATT_init_def mmoe_init_check_fails
        one_task_args_def ex_args_def default_args_def)
qed

section \<open>What a constructor that returns has built\<close>

lemma filter_feature_columns_StrNames:
  "filter_feature_columns cols (StrNames s) =
     Inr (filter (\<lambda>feat. \<not> str_contains (name feat) s) cols)"
  by (induction cols) (auto simp: rbind_def name_in_def)

lemma filter_feature_columns_Inr:
  "filter_feature_columns cols cs = Inr r \<Longrightarrow>
   r = filter (\<lambda>feat. name_in (name feat) cs = Inr False) cols"
  by (induction cols arbitrary: r) (auto simp: rbind_def split: sum.splits if_splits)

text \<open>The constructors return when the arguments are valid and the outside constructors return.\<close>

lemma succeeds_mmoe_init:
  assumes chk: "check_args a = Inr ()"
    and flg: "arg_flag a = Some f"
    and sa: "\<And>n. \<exists>l. SelfAttention_Layer env n (embedding_dim self0) 4 True = Inr l"
    and dnn: "\<And>n i hs. hs \<noteq> [] \<Longrightarrow> \<exists>l. DNN env n i hs = Inr l"
    and pl: "\<And>n t. t \<in> set (arg_task_types a) \<Longrightarrow> \<exists>l. PredictionLayer env n t = Inr l"
    and eu: "arg_expert_dnn_hidden_units a \<noteq> []"
    and dc: "arg_domain_id_as_feature a \<or> arg_domain_column a \<noteq> None"
    and nd: "0 \<le> arg_num_domains a + 1"
    and tl: "succeeds tail"
  shows "succeeds (mmoe_init env self0 a tail)"
proof -
  have flt: "\<exists>r. local_dnn_feature_columns a = Inr r"
    using dc
    by (auto simp: local_dnn_feature_columns_def as_col_names_def
        filter_feature_columns_StrNames)
  have emb: "succeeds (nn_Embedding env (arg_num_domains a + 1) (embedding_size self0))"
    using nd by (auto simp: nn_Embedding_def intro!: succeeds_new_module)
  have i: "succeeds (int_layers_init env self0 u)" for u
    using sa
    by (auto simp: int_layers_init_def
        intro!: succeeds_pbind succeeds_for_each succeeds_new_module)
  have e: "succeeds (expert_dnn_init env a d)" for d
    using dnn eu
    by (auto simp: expert_dnn_init_def intro!: succeeds_for_each succeeds_new_module)
  have g: "succeeds (gate_dnn_init env a d)" for d
    using dnn
    by (auto simp: gate_dnn_init_def
        intro!: succeeds_pbind succeeds_for_each succeeds_new_module)
  have gf: "succeeds (gate_dnn_final_layer_init env a d)" for d
    by (auto simp: gate_dnn_final_layer_init_def py_last_def
        intro!: succeeds_pbind succeeds_for_each)
  have t: "succeeds (tower_dnn_init env a)"
    using dnn eu
    by (auto simp: tower_dnn_init_def py_last_def
        intro!: succeeds_pbind succeeds_for_each succeeds_new_module)
  have tf: "succeeds (tower_dnn_final_layer_init env a)"
    using eu
    by (auto simp: tower_dnn_final_layer_init_def py_last_def
        intro!: succeeds_pbind succeeds_for_each)
  have out: "succeeds (out_init env a)"
    using pl by (auto simp: out_init_def intro!: succeeds_for_each succeeds_new_module)
  show ?thesis
    unfolding mmoe_init_def Let_def
    using chk flg flt
    by (auto simp: usetrans_in_def intro!: succeeds_pbind i e g gf t tf out emb tl)
qed

text \<open>What a constructor that returns has run, and the model it has built.\<close>

lemma mmoe_init_InrE:
  assumes "mmoe_init env self0 a tail n = (Inr m, n')"
  obtains f int_ls n1 experts n2 gates n3 gate_finals n4 towers n5 tower_finals n6 outs n7
    loc domain_embs n8 l t
  where "check_args a = Inr ()" and "arg_flag a = Some f"
    and "int_layers_init env self0 (str_contains ''usetrans'' f) n = (Inr int_ls, n1)"
    and "expert_dnn_init env a (compute_input_dim env (arg_dnn_feature_columns a)) n1
          = (Inr experts, n2)"
    and "gate_dnn_init env a (compute_input_dim env (arg_dnn_feature_columns a)) n2
          = (Inr gates, n3)"
    and "gate_dnn_final_layer_init env a (compute_input_dim env (arg_dnn_feature_columns a)) n3
          = (Inr gate_finals, n4)"
    and "tower_dnn_init env a n4 = (Inr towers, n5)"
    and "tower_dnn_final_layer_init env a n5 = (Inr tower_finals, n6)"
    and "out_init env a n6 = (Inr outs, n7)"
    and "local_dnn_feature_columns a = Inr loc"
    and "nn_Embedding env (arg_num_domains a + 1) (embedding_size self0) n7
          = (Inr domain_embs, n8)"
    and "tail n8 = (Inr (l, t), n')"
    and "m = \<lparr>dnn_feature_columns = dnn_feature_columns self0,
          embedding_size = embedding_size self0,
          embedding_dim = embedding_dim self0,
          feature_index = feature_index self0,
          num_tasks = length (arg_task_names a),
          domain_column = arg_domain_column a,
          flag = arg_flag a,
          num_experts = arg_num_experts a,
          task_names = arg_task_names a,
          input_dim = compute_input_dim env (arg_dnn_feature_columns a),
          expert_dnn_hidden_units = arg_expert_dnn_hidden_units a,
          gate_dnn_hidden_units = arg_gate_dnn_hidden_units a,
          tower_dnn_hidden_units = arg_tower_dnn_hidden_units a,
          int_layers = int_ls,
          expert_dnn = experts,
          gate_dnn = gates,
          gate_dnn_final_layer = gate_finals,
          tower_dnn = towers,
          tower_dnn_final_layer = tower_finals,
          out = outs,
          domain_embeddings = domain_embs,
          lhuc = l,
          target_attention = t\<rparr>"
  using assms
  unfolding mmoe_init_def Let_def pbind_Inr_iff usetrans_in_def
  by (auto split: option.splits)

lemma mmoe_init_Inr:
  assumes "mmoe_init env self0 a tail n = (Inr m, n')"
  shows "check_args a = Inr ()"
    and "\<exists>f. arg_flag a = Some f"
    and "dnn_feature_columns m = dnn_feature_columns self0"
    and "flag m = arg_flag a"
    and "num_tasks m = length (arg_task_names a)"
    and "num_experts m = arg_num_experts a"
    and "domain_column m = arg_domain_column a"
    and "gate_dnn_hidden_units m = arg_gate_dnn_hidden_units a"
    and "tower_dnn_hidden_units m = arg_tower_dnn_hidden_units a"
    and "\<exists>loc. local_dnn_feature_columns a = Inr loc"
  using assms by (auto elim!: mmoe_init_InrE)

text \<open>The concrete setting: both constructors return on \<open>ex_args\<close> and its variants.\<close>

lemma ex_env_builds:
  "\<exists>l. SelfAttention_Layer ex_env n d 4 True = Inr l"
  "\<exists>l. Attention_Layer ex_env n d 4 True = Inr l"
  "hs \<noteq> [] \<Longrightarrow> \<exists>l. DNN ex_env n i hs = Inr l"
  "t \<in> {''binary'', ''regression''} \<Longrightarrow> \<exists>l. PredictionLayer ex_env n t = Inr l"
  by (auto simp: ex_env_def ex_DNN_def ex_PredictionLayer_def)

lemma ex_MMOE_MT_init_succeeds:
  assumes "check_args a = Inr ()" "arg_flag a = Some f" "arg_expert_dnn_hidden_units a \<noteq> []"
    "arg_domain_id_as_feature a \<or> arg_domain_column a \<noteq> None" "0 \<le> arg_num_domains a + 1"
  shows "\<exists>m n'. MMOE_MT_init ex_env self0 a n = (Inr m, n')"
proof -
  have types: "set (arg_task_types a) \<subseteq> {''binary'', ''regression''}"
    using assms(1) by (simp add: check_args_eq split: if_splits)
  have "succeeds (MMOE_MT_init ex_env self0 a)"
    unfolding MMOE_MT_init_def
    using assms types
    by (intro succeeds_mmoe_init [where f = f] succeeds_pbind)
      (auto intro: ex_env_builds)
  then show ?thesis
    by (simp add: succeeds_def)
qed

lemma ex_MMOE_MT_ATT_init_succeeds:
  assumes "check_args a = Inr ()" "arg_flag a = Some f" "arg_expert_dnn_hidden_units a \<noteq> []"
    "arg_domain_id_as_feature a \<or> arg_domain_column a \<noteq> None" "0 \<le> arg_num_domains a + 1"
  shows "\<exists>m n'. MMOE_MT_ATT_init ex_env self0 a n = (Inr m, n')"
proof -
  have types: "set (arg_task_types a) \<subseteq> {''binary'', ''regression''}"
    using assms(1) by (simp add: check_args_eq split: if_splits)
  have "succeeds (MMOE_MT_ATT_init ex_env self0 a)"
    unfolding MMOE_MT_ATT_init_def
    using assms types
    by (intro succeeds_mmoe_init [where f = f] succeeds_pbind succeeds_for_each
        succeeds_new_module)
      (auto intro: ex_env_builds)
  then show ?thesis
    by (simp add: succeeds_def)
qed

lemma ex_args_valid:
  "check_args ex_args = Inr ()" "arg_flag ex_args = Some ''sota''"
  "arg_expert_dnn_hidden_units ex_args \<noteq> []"
  "arg_domain_id_as_feature ex_args \<or> arg_domain_column ex_args \<noteq> None"
  "0 \<le> arg_num_domains ex_args + 1"
  by (simp_all add: check_args_def ex_args_def default_args_def ex_columns_def)

section \<open>The default flag\<close>

text \<open>
  C8 (as amended). With the default \<^verbatim>\<open>flag=None\<close> neither constructor returns a model.
  When the arguments pass the checks of lines 59-70, \<^verbatim>\<open>TypeError\<close> is raised at the test
  \<^verbatim>\<open>'usetrans' in self.flag\<close>, with the allocation counter where it started: no expert,
  gate or tower layer, nor any other module, has been built. When they do not pass,
  \<^verbatim>\<open>ValueError\<close> is raised by the checks, before the test.
\<close>

theorem C8_default_flag:
  "arg_flag a = None \<Longrightarrow>
   (check_args a = Inr () \<longrightarrow>
      MMOE_MT_init env self0 a n = (Inl TypeError, n) \<and>
      MMOE_MT_ATT_init env self0 a n = (Inl TypeError, n)) \<and>
   (check_args a \<noteq> Inr () \<longrightarrow>
      MMOE_MT_init env self0 a n = (Inl ValueError, n) \<and>
      MMOE_MT_ATT_init env self0 a n = (Inl ValueError, n)) \<and>
   (\<forall>m n'. MMOE_MT_init env self0 a n \<noteq> (Inr m, n')) \<and>
   (\<forall>m n'. MMOE_MT_ATT_init env self0 a n \<noteq> (Inr m, n'))"
proof -
  assume none: "arg_flag a = None"
  show ?thesis
  proof (cases "check_args a = Inr ()")
    case True
    with none show ?thesis
      by (simp add: MMOE_MT_init_def MMOE_MT_ATT_init_def mmoe_init_flag_None)
  next
    case False
    then have "check_args a = Inl ValueError"
      by (simp add: check_args_eq split: if_splits)
    with False show ?thesis
      by (simp add: MMOE_MT_init_def MMOE_MT_ATT_init_def mmoe_init_check_fails)
  qed
qed

theorem C8_default_flag_witness:
  "MMOE_MT_init ex_env ex_self0 (default_args ex_columns 3) 0 = (Inl TypeError, 0) \<and>
   MMOE_MT_ATT_init ex_env ex_self0 (default_args ex_columns 3) 0 = (Inl TypeError, 0)"
proof -
  have none: "arg_flag (default_args ex_columns 3) = None"
    by (simp add: default_args_def)
  have ok: "check_args (default_args ex_columns 3) = Inr ()"
    by (simp add: check_args_def default_args_def ex_columns_def)
  from C8_default_flag [OF none, of ex_env ex_self0 0] ok show ?thesis
    by blast
qed

text \<open>
  C8 as stated fails: with the default flag and one expert the constructors raise
  \<^verbatim>\<open>ValueError\<close> at line 62, not \<^verbatim>\<open>TypeError\<close> at the membership test.
\<close>

theorem C8_counterexample:
  "arg_flag one_expert_args = None \<and>
   MMOE_MT_init ex_env ex_self0 one_expert_args 0 = (Inl ValueError, 0) \<and>
   MMOE_MT_ATT_init ex_env ex_self0 one_expert_args 0 = (Inl ValueError, 0)"
proof -
  have "check_args one_expert_args = Inl ValueError"
    by (simp add: check_args_def one_expert_args_def default_args_def)
  then show ?thesis
    by (simp add: MMOE_MT_init_def MMOE_MT_ATT_init_def mmoe_init_check_fails
        one_expert_args_def default_args_def)
qed

section \<open>The feature columns of the forward pass\<close>

text \<open>
  C10. \<^verbatim>\<open>filter_feature_columns\<close> is a function of its two arguments and returns the
  features whose name is not in \<^verbatim>\<open>filtered_col_names\<close>, in their order. When
  \<^verbatim>\<open>domain_id_as_feature\<close> is false the constructor of \<^verbatim>\<open>MMOE_MT\<close> calls it for a
  local variable only: in the model it returns, \<^verbatim>\<open>self.dnn_feature_columns\<close> is what
  \<^verbatim>\<open>BaseModel.__init__\<close> left there. When that is the constructor's argument, the
  forward pass hands the unfiltered columns, the domain column among them, to
  \<^verbatim>\<open>input_from_feature_columns\<close>.
\<close>

theorem C10_filter_is_local:
  "MMOE_MT_init env self0 a n = (Inr m, n') \<Longrightarrow> \<not> arg_domain_id_as_feature a \<Longrightarrow>
   dnn_feature_columns self0 = arg_dnn_feature_columns a \<Longrightarrow>
   (\<exists>loc. filter_feature_columns (arg_dnn_feature_columns a)
            (as_col_names (arg_domain_column a)) = Inr loc \<and>
      loc = filter (\<lambda>feat. name_in (name feat) (as_col_names (arg_domain_column a)) = Inr False)
              (arg_dnn_feature_columns a)) \<and>
   dnn_feature_columns m = arg_dnn_feature_columns a \<and>
   forward_inputs env m X = input_from_feature_columns env X (arg_dnn_feature_columns a)"
proof -
  assume built: "MMOE_MT_init env self0 a n = (Inr m, n')"
    and no_feat: "\<not> arg_domain_id_as_feature a"
    and base: "dnn_feature_columns self0 = arg_dnn_feature_columns a"
  from built have init: "mmoe_init env self0 a
      (pbind (lhuc_block env (embedding_size self0)) (\<lambda>l. ret (l, ()))) n = (Inr m, n')"
    by (simp add: MMOE_MT_init_def)
  from mmoe_init_Inr(10) [OF init] no_feat
  obtain loc where loc: "filter_feature_columns (arg_dnn_feature_columns a)
      (as_col_names (arg_domain_column a)) = Inr loc"
    by (auto simp: local_dnn_feature_columns_def)
  have cols: "dnn_feature_columns m = arg_dnn_feature_columns a"
    using mmoe_init_Inr(3) [OF init] base by simp
  show ?thesis
    using loc filter_feature_columns_Inr [OF loc] cols
    by (simp add: forward_inputs_def)
qed

theorem C10_filter_is_local_witness:
  "\<exists>m n'. MMOE_MT_init ex_env ex_self0 ex_args 0 = (Inr m, n') \<and>
     filter_feature_columns ex_columns (StrNames ''301'') = Inr [\<lparr>name = ''101''\<rparr>] \<and>
     dnn_feature_columns m = ex_columns \<and>
     forward_inputs ex_env m (Tensor [1, 2] [5, 1])
       = input_from_feature_columns ex_env (Tensor [1, 2] [5, 1]) ex_columns"
proof -
  obtain m n' where built: "MMOE_MT_init ex_env ex_self0 ex_args 0 = (Inr m, n')"
    using ex_MMOE_MT_init_succeeds [OF ex_args_valid] by blast
  have no_feat: "\<not> arg_domain_id_as_feature ex_args"
    and base: "dnn_feature_columns ex_self0 = arg_dnn_feature_columns ex_args"
    by (simp_all add: ex_args_def default_args_def ex_self0_def)
  have flt: "filter_feature_columns ex_columns (StrNames ''301'') = Inr [\<lparr>name = ''101''\<rparr>]"
    by (simp add: filter_feature_columns_StrNames ex_columns_def)
  have cols: "arg_dnn_feature_columns ex_args = ex_columns"
    by (simp add: ex_args_def default_args_def)
  from C10_filter_is_local [OF built no_feat base, of "Tensor [1, 2] [5, 1]"] flt cols built
  show ?thesis
    by auto
qed

section \<open>The domain embedding table\<close>

lemma new_module_Inr_iff:
  "new_module build n = (Inr M, n') \<longleftrightarrow> (\<exists>x. build n = Inr x \<and> M = Module n x \<and> n' = Suc n)"
  by (auto simp: new_module_def split: sum.splits)

lemma nn_Embedding_Inr:
  assumes "nn_Embedding env rows w n = (Inr E, n')"
  shows "0 \<le> rows" and "num_embeddings (impl E) = nat rows"
    and "length (table (impl E)) = nat rows" and "embedding_width (impl E) = w"
    and "mid E = n" and "n' = Suc n"
  using assms by (auto simp: nn_Embedding_def new_module_Inr_iff split: if_splits)

text \<open>\<^verbatim>\<open>X[:, c]\<close> of a matrix with \<open>b\<close> rows and \<open>k\<close> columns.\<close>

lemma select_col_2d:
  assumes "c < k" "length xs = b * k"
  shows "select_col (Tensor [b, k] xs) c = Inr (Tensor [b] (map (\<lambda>r. xs ! (r * k + c)) [0..<b]))"
proof -
  have "take 1 (drop (r * k + c) xs) = [xs ! (r * k + c)]" if "r < b" for r
  proof -
    have "r * k + c < b * k"
    proof -
      have "r * k + c < r * k + k" using assms(1) by simp
      also have "\<dots> = Suc r * k" by simp
      also have "\<dots> \<le> b * k" using that by (intro mult_le_mono1) simp
      finally show ?thesis .
    qed
    then show ?thesis
      using assms(2) by (simp add: take_Suc_conv_app_nth)
  qed
  then have "concat (map (\<lambda>a. take 1 (drop (a * k + c) xs)) [0..<b])
      = concat (map (\<lambda>r. [xs ! (r * k + c)]) [0..<b])"
    by (intro arg_cong [where f = concat] map_cong) auto
  also have "\<dots> = map (\<lambda>r. xs ! (r * k + c)) [0..<b]"
    by (induction b) auto
  finally show ?thesis
    using assms(1) by (simp add: select_col_def numel_def)
qed

lemma domain_emb_fst:
  "fst (domain_emb self X evs) =
     rbind (domain_ids self X) (embedding_apply (impl (domain_embeddings self)))"
  by (cases "domain_ids self X") (simp_all add: domain_emb_def invoke_def rbind_def)

lemma embedding_apply_Inr_iff:
  "(\<exists>t. embedding_apply E ids = Inr t) \<longleftrightarrow>
     (\<forall>i \<in> set (idata ids). 0 \<le> i \<and> i < int (num_embeddings E))"
  by (auto simp: embedding_apply_def list_all_iff)

lemma domain_lookup_bounds:
  assumes built: "mmoe_init env self0 a tail n = (Inr m, n')"
    and col: "arg_domain_column a = Some c" "feature_index self0 c = Some (j, j')"
    and X: "j < k" "length xs = b * k"
  shows "length (table (impl (domain_embeddings m))) = nat (arg_num_domains a + 1)"
    and "0 \<le> arg_num_domains a + 1"
    and "(\<exists>t. fst (domain_emb m (Tensor [b, k] xs) evs) = Inr t) \<longleftrightarrow>
          (\<forall>r < b. 0 \<le> trunc (xs ! (r * k + j)) \<and> trunc (xs ! (r * k + j)) \<le> arg_num_domains a)"
    and "0 \<le> arg_num_domains a \<longrightarrow>
          (\<exists>t. embedding_apply (impl (domain_embeddings m)) (ITensor [1] [arg_num_domains a])
                  = Inr t)"
    and "embedding_apply (impl (domain_embeddings m)) (ITensor [1] [arg_num_domains a + 1])
          = Inl IndexError"
proof -
  from built obtain E n7 n8 where
    E: "nn_Embedding env (arg_num_domains a + 1) (embedding_size self0) n7 = (Inr E, n8)"
    and m: "domain_embeddings m = E" "domain_column m = arg_domain_column a"
      "feature_index m = feature_index self0"
    by (auto elim!: mmoe_init_InrE)
  note e = nn_Embedding_Inr [OF E]
  show "length (table (impl (domain_embeddings m))) = nat (arg_num_domains a + 1)"
    and "0 \<le> arg_num_domains a + 1"
    using e m by simp_all
  have ids: "domain_ids m (Tensor [b, k] xs)
      = Inr (ITensor [b] (map (\<lambda>r. trunc (xs ! (r * k + j))) [0..<b]))"
    using m col X by (simp add: domain_ids_def rbind_def select_col_2d long_def comp_def)
  show "(\<exists>t. fst (domain_emb m (Tensor [b, k] xs) evs) = Inr t) \<longleftrightarrow>
          (\<forall>r < b. 0 \<le> trunc (xs ! (r * k + j)) \<and> trunc (xs ! (r * k + j)) \<le> arg_num_domains a)"
    unfolding domain_emb_fst ids
    using e m by (auto simp: rbind_def embedding_apply_Inr_iff)
  show "0 \<le> arg_num_domains a \<longrightarrow>
          (\<exists>t. embedding_apply (impl (domain_embeddings m)) (ITensor [1] [arg_num_domains a])
                  = Inr t)"
    using e m by (simp add: embedding_apply_Inr_iff)
  show "embedding_apply (impl (domain_embeddings m)) (ITensor [1] [arg_num_domains a + 1])
          = Inl IndexError"
    using e m by (simp add: embedding_apply_def)
qed

text \<open>
  C9. In a model that either constructor returns, the domain embedding table has
  \<open>num_domains + 1\<close> rows. For a batch \<open>X\<close> of \<open>b\<close> rows and \<open>k\<close> columns whose column \<open>j\<close>
  is the domain column, the lookup of line 180 (190) returns exactly when every value of
  that column, truncated towards zero, lies in \<open>[0, num_domains]\<close>; the id
  \<open>num_domains\<close> is accepted and the id \<open>num_domains + 1\<close> raises \<^verbatim>\<open>IndexError\<close>.
\<close>

theorem C9_domain_lookup_bounds:
  "arg_domain_column a = Some c \<Longrightarrow> feature_index self0 c = Some (j, j') \<Longrightarrow>
   j < k \<Longrightarrow> length xs = b * k \<Longrightarrow>
   (MMOE_MT_init env self0 a n = (Inr m, n') \<longrightarrow>
      length (table (impl (domain_embeddings m))) = nat (arg_num_domains a + 1) \<and>
      0 \<le> arg_num_domains a + 1 \<and>
      ((\<exists>t. fst (domain_emb m (Tensor [b, k] xs) evs) = Inr t) \<longleftrightarrow>
         (\<forall>r < b. 0 \<le> trunc (xs ! (r * k + j)) \<and>
                  trunc (xs ! (r * k + j)) \<le> arg_num_domains a)) \<and>
      (0 \<le> arg_num_domains a \<longrightarrow>
         (\<exists>t. embedding_apply (impl (domain_embeddings m)) (ITensor [1] [arg_num_domains a])
                 = Inr t)) \<and>
      embedding_apply (impl (domain_embeddings m)) (ITensor [1] [arg_num_domains a + 1])
        = Inl IndexError) \<and>
   (MMOE_MT_ATT_init env self0 a n = (Inr m', n'') \<longrightarrow>
      length (table (impl (domain_embeddings m'))) = nat (arg_num_domains a + 1) \<and>
      0 \<le> arg_num_domains a + 1 \<and>
      ((\<exists>t. fst (domain_emb m' (Tensor [b, k] xs) evs) = Inr t) \<longleftrightarrow>
         (\<forall>r < b. 0 \<le> trunc (xs ! (r * k + j)) \<and>
                  trunc (xs ! (r * k + j)) \<le> arg_num_domains a)) \<and>
      (0 \<le> arg_num_domains a \<longrightarrow>
         (\<exists>t. embedding_apply (impl (domain_embeddings m')) (ITensor [1] [arg_num_domains a])
                 = Inr t)) \<and>
      embedding_apply (impl (domain_embeddings m')) (ITensor [1] [arg_num_domains a + 1])
        = Inl IndexError)"
  unfolding MMOE_MT_init_def MMOE_MT_ATT_init_def
  by (intro conjI impI domain_lookup_bounds; assumption)

theorem C9_domain_lookup_bounds_witness:
  "(\<exists>m n'. MMOE_MT_init ex_env ex_self0 ex_args 0 = (Inr m, n') \<and>
      length (table (impl (domain_embeddings m))) = 4 \<and>
      (\<exists>t. fst (domain_emb m (Tensor [1, 2] [5, 3]) []) = Inr t) \<and>
      \<not> (\<exists>t. fst (domain_emb m (Tensor [1, 2] [5, 4]) []) = Inr t)) \<and>
   (\<exists>m n'. MMOE_MT_ATT_init ex_env ex_self0 ex_args 0 = (Inr m, n') \<and>
      length (table (impl (domain_embeddings m))) = 4 \<and>
      (\<exists>t. fst (domain_emb m (Tensor [1, 2] [5, 3]) []) = Inr t) \<and>
      \<not> (\<exists>t. fst (domain_emb m (Tensor [1, 2] [5, 4]) []) = Inr t))"
proof -
  obtain m n' where mt: "MMOE_MT_init ex_env ex_self0 ex_args 0 = (Inr m, n')"
    using ex_MMOE_MT_init_succeeds [OF ex_args_valid] by blast
  obtain m' n'' where att: "MMOE_MT_ATT_init ex_env ex_self0 ex_args 0 = (Inr m', n'')"
    using ex_MMOE_MT_ATT_init_succeeds [OF ex_args_valid] by blast
  have col: "arg_domain_column ex_args = Some ''301''"
    "feature_index ex_self0 ''301'' = Some (1, 2)" "arg_num_domains ex_args = 3"
    by (simp_all add: ex_args_def default_args_def ex_self0_def)
  have X: "(1::nat) < 2" "length [5, 3 :: real] = 1 * 2" "length [5, 4 :: real] = 1 * 2"
    by simp_all
  have good: "\<forall>r<(1::nat). 0 \<le> trunc ([5, 3] ! (r * 2 + 1)) \<and>
      trunc ([5, 3] ! (r * 2 + 1)) \<le> (3::int)"
    by (simp add: trunc_def)
  have bad: "\<not> (\<forall>r<(1::nat). 0 \<le> trunc ([5, 4] ! (r * 2 + 1)) \<and>
      trunc ([5, 4] ! (r * 2 + 1)) \<le> (3::int))"
    by (auto simp: trunc_def intro!: exI [of _ 0])
  note in3 = C9_domain_lookup_bounds [OF col(1) col(2) X(1) X(2),
      of ex_env 0 m n' "[]" m' n'', unfolded col(3)]
  note in4 = C9_domain_lookup_bounds [OF col(1) col(2) X(1) X(3),
      of ex_env 0 m n' "[]" m' n'', unfolded col(3)]
  have four: "nat (3 + 1) = 4"
    by simp
  have "length (table (impl (domain_embeddings m))) = 4"
    "\<exists>t. fst (domain_emb m (Tensor [1, 2] [5, 3]) []) = Inr t"
    "length (table (impl (domain_embeddings m'))) = 4"
    "\<exists>t. fst (domain_emb m' (Tensor [1, 2] [5, 3]) []) = Inr t"
    using in3 mt att good unfolding four by blast+
  moreover have "\<not> (\<exists>t. fst (domain_emb m (Tensor [1, 2] [5, 4]) []) = Inr t)"
    "\<not> (\<exists>t. fst (domain_emb m' (Tensor [1, 2] [5, 4]) []) = Inr t)"
    using in4 mt att bad by blast+
  ultimately show ?thesis
    using mt att by blast
qed

section \<open>The input of the experts and gates\<close>

lemma upt_3: "[0..<3] = [0, 1, 2]"
  by (simp add: upt_rec)

lemma int_layers_init_Inr:
  assumes "int_layers_init env self0 u n = (Inr ls, n1)"
  shows "u \<longrightarrow> (\<exists>l0 l1 l2. ls = Some [Module n l0, Module (Suc n) l1, Module (Suc (Suc n)) l2])"
    and "\<not> u \<longrightarrow> ls = None"
  using assms
  by (auto simp: int_layers_init_def upt_3 pbind_Inr_iff new_module_Inr_iff split: if_splits)

lemma fst_pbind:
  "fst (pbind m f s) = (case m s of (Inl e, s') \<Rightarrow> Inl e | (Inr x, s') \<Rightarrow> fst (f x s'))"
  by (simp add: pbind_def split: prod.splits sum.splits)

lemma fst_lift [simp]: "fst (lift r s) = r"
  by (simp add: lift_def)

lemma fst_invoke [simp]: "fst (invoke a idx M xs run s) = run (impl M)"
  by (simp add: invoke_def)

lemma dnn_input_usetrans:
  assumes "flag self = Some f" "str_contains ''usetrans'' f"
    and "forward_inputs env self X = Inr (sparse, dense)"
    and "int_layers self = Some [l0, l1, l2]"
  shows "fst (dnn_input env self X evs)
     = stacked_self_attention_input (impl l0) (impl l1) (impl l2) sparse dense"
  using assms
  by (simp add: dnn_input_def stacked_self_attention_input_def usetrans_in_def attr_def
      rbind_def pbind_def invoke_def lift_def ret_def split: sum.splits)

lemma dnn_input_plain:
  assumes "flag self = Some f" "\<not> str_contains ''usetrans'' f"
    and "forward_inputs env self X = Inr (sparse, dense)"
  shows "fst (dnn_input env self X evs) = combined_dnn_input env sparse dense"
  using assms
  by (simp add: dnn_input_def usetrans_in_def)

lemma dnn_input_of_built:
  assumes built: "mmoe_init env self0 a tail n = (Inr m, n')"
    and inputs: "forward_inputs env m X = Inr (sparse, dense)"
  shows "\<exists>f. arg_flag a = Some f \<and> flag m = Some f \<and>
        (if str_contains ''usetrans'' f
         then \<exists>l0 l1 l2. int_layers m = Some [l0, l1, l2] \<and>
                fst (dnn_input env m X evs)
                  = stacked_self_attention_input (impl l0) (impl l1) (impl l2) sparse dense
         else int_layers m = None \<and>
              fst (dnn_input env m X evs) = combined_dnn_input env sparse dense)"
proof -
  from built obtain f ls n1 where f: "arg_flag a = Some f" "flag m = Some f"
    and ls: "int_layers_init env self0 (str_contains ''usetrans'' f) n = (Inr ls, n1)"
      "int_layers m = ls"
    by (auto elim!: mmoe_init_InrE)
  show ?thesis
  proof (cases "str_contains ''usetrans'' f")
    case True
    with int_layers_init_Inr(1) [OF ls(1)] ls(2)
    obtain l0 l1 l2 where "int_layers m = Some [l0, l1, l2]"
      by blast
    with True f inputs show ?thesis
      by (auto simp: dnn_input_usetrans)
  next
    case False
    with int_layers_init_Inr(2) [OF ls(1)] ls(2) f inputs show ?thesis
      by (auto simp: dnn_input_plain)
  qed
qed


lemma ex_forward_inputs:
  "dnn_feature_columns m = ex_columns \<Longrightarrow>
   forward_inputs ex_env m ex_X1 = Inr ([Tensor [1, 1, 1] [5], Tensor [1, 1, 1] [1]], [])"
  by (simp add: forward_inputs_def ex_env_def ex_input_from_feature_columns_def ex_columns_def
      ex_X1_def select_col_def rbind_def numel_def)


section \<open>The value of a forward pass\<close>

text \<open>
  The log of module calls never decides what a forward pass computes: its value can be
  read off with the log left aside.
\<close>

lemma fst_ret [simp]: "fst (ret x s) = Inr x"
  by (simp add: ret_def)

lemma pure_ret [simp]: "pure_value (ret x)"
  by (simp add: pure_value_def ret_def)

lemma pure_lift [simp]: "pure_value (lift r)"
  by (simp add: pure_value_def)

lemma pure_invoke [simp]: "pure_value (invoke a idx M xs run)"
  by (simp add: pure_value_def)

lemma fst_pbind_pure:
  assumes "pure_value m" "\<And>x. pure_value (f x)"
  shows "fst (pbind m f s) = rbind (fst (m s)) (\<lambda>x. fst (f x s))"
proof (cases "m s")
  case (Pair r s1)
  show ?thesis
  proof (cases r)
    case (Inl e)
    with Pair show ?thesis by (simp add: pbind_def rbind_def)
  next
    case (Inr x)
    have "fst (f x s1) = fst (f x s)"
      using assms(2) [of x] by (simp add: pure_value_def)
    with Pair Inr show ?thesis by (simp add: pbind_def rbind_def)
  qed
qed

lemma pure_pbind [simp]:
  assumes "pure_value m" "\<And>x. pure_value (f x)"
  shows "pure_value (pbind m f)"
  unfolding pure_value_def
proof (intro allI)
  fix s s'
  have "fst (m s) = fst (m s')"
    using assms(1) by (simp add: pure_value_def)
  moreover have "fst (f x s) = fst (f x s')" for x
    using assms(2) [of x] by (simp add: pure_value_def)
  ultimately show "fst (pbind m f s) = fst (pbind m f s')"
    by (simp add: fst_pbind_pure [OF assms])
qed

lemma pure_case_prod [simp]:
  "(\<And>a b. pure_value (f a b)) \<Longrightarrow> pure_value (case p of (a, b) \<Rightarrow> f a b)"
  by (cases p) simp

lemma pure_for_each [simp]:
  "(\<And>x. pure_value (f x)) \<Longrightarrow> pure_value (for_each xs f)"
  by (induction xs) simp_all

lemma pure_call_chain [simp]: "pure_value (call_chain run a idx j Ms x)"
  by (induction Ms arbitrary: j x) simp_all

lemma pure_dnn_input [simp]: "pure_value (dnn_input env self X)"
  by (simp add: dnn_input_def)

lemma pure_expert_outs [simp]: "pure_value (expert_outs self x)"
  by (simp add: expert_outs_def)

lemma pure_gate_dnn_out [simp]: "pure_value (gate_dnn_out self x i)"
  by (simp add: gate_dnn_out_def)

lemma pure_mmoe_out [simp]: "pure_value (mmoe_out self x experts i)"
  by (simp add: mmoe_out_def)

lemma pure_mmoe_outs [simp]: "pure_value (mmoe_outs self x experts)"
  by (simp add: mmoe_outs_def)

lemma pure_domain_emb [simp]: "pure_value (domain_emb self X)"
  by (simp add: domain_emb_def)

lemma pure_tower_logit_out [simp]: "pure_value (tower_logit_out self i t)"
  by (simp add: tower_logit_out_def)

lemma pure_lhuc_output [simp]: "pure_value (lhuc_output self demb)"
  by (simp add: lhuc_output_def)

lemma pure_MMOE_MT_tower [simp]: "pure_value (MMOE_MT_tower self l mm i)"
  by (simp add: MMOE_MT_tower_def)

lemma pure_att_factor [simp]: "pure_value (att_factor self i t demb)"
  by (simp add: att_factor_def)

lemma pure_MMOE_MT_ATT_tower [simp]: "pure_value (MMOE_MT_ATT_tower self demb mm i)"
  by (simp add: MMOE_MT_ATT_tower_def)

lemma pure_MMOE_MT_forward [simp]: "pure_value (MMOE_MT_forward env self X)"
  by (simp add: MMOE_MT_forward_def)

lemma pure_MMOE_MT_ATT_forward [simp]: "pure_value (MMOE_MT_ATT_forward env self X)"
  by (simp add: MMOE_MT_ATT_forward_def)

lemma fst_for_each_pure:
  assumes "\<And>x. pure_value (f x)"
  shows "fst (for_each xs f s) = rmap (\<lambda>x. fst (f x s)) xs"
  by (induction xs) (simp_all add: fst_pbind_pure assms rbind_def)

section \<open>The concrete models\<close>

lemma nn_Linear_ex: "nn_Linear ex_env i k n = (Inr (Module n (zero_linear i k)), Suc n)"
  by (simp add: nn_Linear_def new_module_def zero_linear_def ex_env_def)

lemma Suc_Suc_0: "Suc (Suc 0) = 2"
  by simp

lemma upt_2: "[0..<2] = [0, 1]"
  by (simp add: upt_rec)

lemma map_const_upt: "map (\<lambda>r. c) [0..<n] = replicate n c"
  by (induction n) (simp_all add: replicate_append_same)

lemma ex_env_sel:
  "DNN ex_env = ex_DNN" "PredictionLayer ex_env = ex_PredictionLayer"
  "compute_input_dim ex_env = length" "embedding_init ex_env = (\<lambda>n r c. 0)"
  "SelfAttention_Layer ex_env = (\<lambda>n d heads residual. Inr (\<lambda>x. Inr x))"
  "Attention_Layer ex_env = (\<lambda>n d heads residual. Inr (\<lambda>q k. Inr k))"
  "input_from_feature_columns ex_env = ex_input_from_feature_columns"
  "combined_dnn_input ex_env = ex_combined_dnn_input"
  by (simp_all add: ex_env_def)

lemmas init_defs = mmoe_init_def
      check_args_def usetrans_in_def int_layers_init_def expert_dnn_init_def
      gate_dnn_init_def gate_dnn_final_layer_init_def tower_dnn_init_def
      tower_dnn_final_layer_init_def out_init_def local_dnn_feature_columns_def
      as_col_names_def filter_feature_columns_StrNames nn_Linear_ex py_last_def upt_2
      lhuc_block_def nn_Embedding_def
      pbind_def new_module_def ret_def lift_def ex_env_sel ex_DNN_def ex_PredictionLayer_def
      map_const_upt Suc_Suc_0

lemma small_model_built: "MMOE_MT_init ex_env ex_self0 small_args 0 = (Inr small_model, 17)"
  by (simp add: MMOE_MT_init_def init_defs small_args_def ex_args_def default_args_def
      ex_columns_def ex_self0_def small_model_def zero_lhuc_def zero_embedding_def
      ex_sigmoid_layer_def)

lemma bug_model_built: "MMOE_MT_init ex_env ex_self0 bug_args 0 = (Inr bug_model, 15)"
  by (simp add: MMOE_MT_init_def init_defs bug_args_def small_args_def ex_args_def
      default_args_def ex_columns_def ex_self0_def bug_model_def zero_lhuc_def
      zero_embedding_def ex_sigmoid_layer_def)

lemma dot_zero [simp]: "dot (replicate n 0) v = 0"
  by (induction n arbitrary: v) (simp_all add: dot_def split: list.splits, (case_tac v; simp)+)

lemma concat_replicate_replicate: "concat (replicate n (replicate k x)) = replicate (n * k) x"
  by (induction n) (simp_all add: replicate_add)

lemma linear_apply_zero:
  "linear_apply (zero_linear i k) x =
     (if shape x = [] \<or> last (shape x) \<noteq> i then Inl RuntimeError
      else Inr (Tensor (butlast (shape x) @ [k]) (replicate (numel (butlast (shape x)) * k) 0)))"
  by (simp add: linear_apply_def zero_linear_def map_const_upt concat_replicate_replicate)

lemma relu_0 [simp]: "relu 0 = 0"
  by (simp add: relu_def)

lemma sigmoid_0 [simp]: "sigmoid 0 = 1 / 2"
  by (simp add: sigmoid_def)

lemma ex_dnn_run_one:
  "ex_dnn_run [(i, k)] x =
     (if shape x = [] \<or> last (shape x) \<noteq> i then Inl RuntimeError
      else Inr (Tensor (butlast (shape x) @ [k]) (replicate (numel (butlast (shape x)) * k) 0)))"
  by (simp add: linear_apply_zero rbind_def pointwise_def)

lemma bug_dnn_input:
  "fst (dnn_input ex_env bug_model ex_X1 evs) = Inr (Tensor [1, 2] [5, 1])"
  by (simp add: dnn_input_def fst_pbind_pure usetrans_in_def bug_model_def
      ex_forward_inputs ex_env_sel ex_combined_dnn_input_def rbind_def cat_def flatten1_def
      numel_def)

lemma rbind_Inr [simp]: "rbind (Inr x) f = f x"
  by (simp add: rbind_def)

lemma rbind_Inl [simp]: "rbind (Inl e) f = Inl e"
  by (simp add: rbind_def)

lemma replicate_2: "replicate 2 x = [x, x]"
  by (simp add: numeral_2_eq_2)

lemma mmoe_outs_value:
  "fst (mmoe_outs self x experts evs) =
     rmap (\<lambda>i. rbind (fst (gate_dnn_out self x i evs)) (\<lambda>g.
              rbind (gate_mul_expert g experts) (\<lambda>m. Inr (squeeze m))))
       [0..<num_tasks self]"
  by (simp add: mmoe_outs_def mmoe_out_def fst_pbind_pure fst_for_each_pure)

lemma MMOE_MT_forward_value:
  "fst (MMOE_MT_forward env self X evs) =
     rbind (fst (dnn_input env self X evs)) (\<lambda>x.
     rbind (fst (expert_outs self x evs)) (\<lambda>experts.
     rbind (fst (mmoe_outs self x experts evs)) (\<lambda>mmoe.
     rbind (fst (domain_emb self X evs)) (\<lambda>demb.
     rbind (fst (lhuc_output self demb evs)) (\<lambda>lhuc_out.
     rbind (rmap (\<lambda>i. fst (MMOE_MT_tower self lhuc_out mmoe i evs)) [0..<num_tasks self])
       (\<lambda>task_outs. cat task_outs (- 1)))))))"
  by (simp add: MMOE_MT_forward_def fst_pbind_pure fst_for_each_pure)

lemmas tensor_eval = numel_def get_def attr_def pointwise_def replicate_2
  ex_dnn_run_one linear_apply_zero

lemma bug_model_sel:
  "num_tasks bug_model = 2" "num_experts bug_model = 2"
  "expert_dnn bug_model = [Module 0 (ex_dnn_run [(2, 2)]), Module 1 (ex_dnn_run [(2, 2)])]"
  "gate_dnn bug_model = Some [Module 2 (ex_dnn_run [(2, 2)]), Module 3 (ex_dnn_run [(2, 2)])]"
  "gate_dnn_final_layer bug_model = [Module 4 (zero_linear 2 2), Module 5 (zero_linear 2 2)]"
  "gate_dnn_hidden_units bug_model = [2]" "tower_dnn_hidden_units bug_model = []"
  "tower_dnn bug_model = None"
  "tower_dnn_final_layer bug_model = [Module 6 (zero_linear 2 1), Module 7 (zero_linear 2 1)]"
  "out bug_model = [Module 8 ex_sigmoid_layer, Module 9 ex_sigmoid_layer]"
  "domain_embeddings bug_model = Module 10 (zero_embedding 4 1)"
  "lhuc bug_model = zero_lhuc 11 1"
  "domain_column bug_model = Some ''301''"
  "feature_index bug_model = [''101'' \<mapsto> (0, 1), ''301'' \<mapsto> (1, 2)]"
  by (simp_all add: bug_model_def)

lemma bug_expert_outs:
  "fst (expert_outs bug_model (Tensor [1, 2] [5, 1]) evs) = Inr (Tensor [1, 2, 2] [0, 0, 0, 0])"
  by (simp add: expert_outs_def fst_pbind_pure fst_for_each_pure bug_model_sel upt_2
      tensor_eval stack1_def upt_rec del: ex_dnn_run.simps)

lemma bug_gate_dnn_out:
  "i < 2 \<Longrightarrow> fst (gate_dnn_out bug_model (Tensor [1, 2] [5, 1]) i evs) = Inr (Tensor [1, 2] [0, 0])"
  by (auto simp: gate_dnn_out_def fst_pbind_pure bug_model_sel less_2_cases_iff
      tensor_eval simp del: ex_dnn_run.simps)

lemma gate_mul_expert_zero:
  "gate_mul_expert (Tensor [1, 2] [0, 0]) (Tensor [1, 2, 2] [0, 0, 0, 0])
     = Inr (Tensor [1, 1, 2] [0, 0])"
  by (simp add: gate_mul_expert_def softmax1_def unsqueeze1_def matmul_def numel_def
      broadcast_shapes_def pad_left_def bdim_def bget_def upt_rec)

lemma bug_mmoe_outs:
  "fst (mmoe_outs bug_model (Tensor [1, 2] [5, 1]) (Tensor [1, 2, 2] [0, 0, 0, 0]) evs)
     = Inr [Tensor [2] [0, 0], Tensor [2] [0, 0]]"
  by (simp add: mmoe_outs_value bug_gate_dnn_out [simplified]
      gate_mul_expert_zero [simplified] squeeze_def bug_model_sel upt_2)

lemma bug_domain_emb:
  "fst (domain_emb bug_model ex_X1 evs) = Inr (Tensor [1, 1] [0])"
  by (simp add: domain_emb_fst domain_ids_def bug_model_sel ex_X1_def select_col_def long_def
      trunc_def embedding_apply_def zero_embedding_def numel_def)

lemma zero_lhuc_value:
  "fst (call_chain torch_layer_apply a idx 0 (zero_lhuc n e) (Tensor [b, e] xs) evs)
     = Inr (Tensor [b, 64] (replicate (b * 64) (1 / 2)))"
  by (simp add: zero_lhuc_def fst_pbind_pure linear_apply_zero pointwise_def numel_def)

lemma bug_lhuc_output:
  "fst (lhuc_output bug_model (Tensor [1, 1] [0]) evs) = Inr (Tensor [1, 64] (replicate 64 1))"
  by (simp add: lhuc_output_def fst_pbind_pure bug_model_sel zero_lhuc_value [simplified]
      scale_def)

lemma bug_tower:
  "i < 2 \<Longrightarrow> fst (MMOE_MT_tower bug_model lh [Tensor [2] [0, 0], Tensor [2] [0, 0]] i evs)
     = Inr (Tensor [1] [1 / 2])"
  by (auto simp: MMOE_MT_tower_def tower_logit_out_def fst_pbind_pure bug_model_sel
      less_2_cases_iff ex_sigmoid_layer_def tensor_eval)

lemma bug_forward:
  "fst (MMOE_MT_forward ex_env bug_model ex_X1 []) = Inr (Tensor [2] [1 / 2, 1 / 2])"
  by (simp add: MMOE_MT_forward_value bug_dnn_input [simplified]
      bug_expert_outs [simplified] bug_mmoe_outs [simplified] bug_domain_emb [simplified]
      bug_lhuc_output [simplified] bug_model_sel upt_2 bug_tower [simplified]
      cat_def numel_def)

section \<open>The domain adaptation block of \<^verbatim>\<open>MMOE_MT\<close>\<close>

lemma sigmoid_bounds: "0 < sigmoid x" "sigmoid x < 1"
  by (simp_all add: sigmoid_def add_pos_pos)

lemma lhuc_output_range:
  assumes struct: "map impl (lhuc self) = [Linear L1, ReLU, Linear L2, Sigmoid]"
    and out: "fst (lhuc_output self demb evs) = Inr y"
  shows "\<forall>v \<in> set (data y). 0 < v \<and> v < 2"
proof -
  from struct obtain M1 M2 M3 M4 where ms: "lhuc self = [M1, M2, M3, M4]"
    and impls: "impl M1 = Linear L1" "impl M2 = ReLU" "impl M3 = Linear L2" "impl M4 = Sigmoid"
    by (auto simp: map_eq_Cons_conv)
  from out obtain z where y: "y = scale 2 (pointwise sigmoid z)"
    by (auto simp: lhuc_output_def ms impls fst_pbind_pure rbind_def split: sum.splits)
  show ?thesis
    using sigmoid_bounds by (auto simp: y scale_def pointwise_def)
qed

lemma bget_2d:
  "k < b * h \<Longrightarrow> bget (Tensor [b, h] xs) (unravel [b, h] k) = xs ! k"
  by (auto simp: bget_def pad_left_def numel_def)

lemma mul_same_2d:
  "mul (Tensor [b, h] xs) (Tensor [b, h] ys)
     = Inr (Tensor [b, h] (map (\<lambda>k. xs ! k * ys ! k) [0..<b * h]))"
proof -
  have "map (\<lambda>k. bget (Tensor [b, h] xs) (unravel [b, h] k) * bget (Tensor [b, h] ys) (unravel [b, h] k))
          [0..<b * h]
      = map (\<lambda>k. xs ! k * ys ! k) [0..<b * h]"
    by (intro map_cong refl) (simp add: bget_2d del: unravel.simps)
  then show ?thesis
    by (simp add: mul_def broadcast_shapes_def pad_left_def bdim_def numel_def del: unravel.simps)
qed

lemma MMOE_MT_tower_rescales:
  assumes "0 < length (tower_dnn_hidden_units self)" "tower_dnn self = Some ts"
    "get ts i = Inr M" "get mmoe i = Inr m" "impl M m = Inr t"
  shows "fst (MMOE_MT_tower self y mmoe i evs)
     = rbind (mul t y) (\<lambda>rescaled. fst (tower_logit_out self i rescaled evs))"
  using assms by (simp add: MMOE_MT_tower_def fst_pbind_pure attr_def)

lemma lhuc_block_Inr:
  assumes "lhuc_block env e n = (Inr ls, n')"
  shows "\<exists>L1 L2. ls = [Module n (Linear L1), Module (n + 1) ReLU,
                       Module (n + 2) (Linear L2), Module (n + 3) Sigmoid] \<and>
           in_features L1 = e \<and> out_features L1 = 128 \<and>
           in_features L2 = 128 \<and> out_features L2 = 64"
    and "n' = n + 4"
  using assms
  by (auto simp: lhuc_block_def nn_Linear_def pbind_Inr_iff new_module_Inr_iff)

lemma MMOE_MT_lhuc_built:
  assumes "MMOE_MT_init env self0 a n = (Inr m, n')"
  shows "\<exists>L1 L2. map impl (lhuc m) = [Linear L1, ReLU, Linear L2, Sigmoid]"
proof -
  from assms obtain n8 l where "lhuc_block env (embedding_size self0) n8 = (Inr l, n')"
    and "lhuc m = l"
    unfolding MMOE_MT_init_def
    by (auto elim!: mmoe_init_InrE simp: pbind_Inr_iff)
  with lhuc_block_Inr(1) [of env "embedding_size self0" n8 l n'] show ?thesis
    by auto
qed

lemma small_model_sel:
  "num_tasks small_model = 2" "num_experts small_model = 2"
  "expert_dnn small_model = [Module 0 (ex_dnn_run [(2, 2)]), Module 1 (ex_dnn_run [(2, 2)])]"
  "gate_dnn small_model = Some [Module 2 (ex_dnn_run [(2, 2)]), Module 3 (ex_dnn_run [(2, 2)])]"
  "gate_dnn_final_layer small_model = [Module 4 (zero_linear 2 2), Module 5 (zero_linear 2 2)]"
  "gate_dnn_hidden_units small_model = [2]" "tower_dnn_hidden_units small_model = [64]"
  "tower_dnn small_model
     = Some [Module 6 (ex_dnn_run [(2, 64)]), Module 7 (ex_dnn_run [(2, 64)])]"
  "tower_dnn_final_layer small_model
     = [Module 8 (zero_linear 64 1), Module 9 (zero_linear 64 1)]"
  "out small_model = [Module 10 ex_sigmoid_layer, Module 11 ex_sigmoid_layer]"
  "domain_embeddings small_model = Module 12 (zero_embedding 4 1)"
  "lhuc small_model = zero_lhuc 13 1"
  "domain_column small_model = Some ''301''"
  "feature_index small_model = [''101'' \<mapsto> (0, 1), ''301'' \<mapsto> (1, 2)]"
  "flag small_model = Some ''sota''" "dnn_feature_columns small_model = ex_columns"
  by (simp_all add: small_model_def)

lemma small_domain_emb:
  "fst (domain_emb small_model ex_X2 evs) = Inr (Tensor [2, 1] [0, 0])"
  by (simp add: domain_emb_fst domain_ids_def small_model_sel ex_X2_def select_col_def long_def
      trunc_def embedding_apply_def zero_embedding_def numel_def upt_rec)

lemma small_lhuc_output:
  "fst (lhuc_output small_model (Tensor [2, 1] [0, 0]) evs)
     = Inr (Tensor [2, 64] (replicate 128 1))"
  by (simp add: lhuc_output_def fst_pbind_pure small_model_sel zero_lhuc_value [simplified]
      scale_def)




section \<open>The gates and the mixture of experts\<close>

lemma idx2:
  assumes "e < (E::nat)"
  shows "(r * E + e) div E = r" "(r * E + e) mod E = e"
  using assms by simp_all

lemma idx2_less: "r < b \<Longrightarrow> e < E \<Longrightarrow> r * E + e < b * (E::nat)"
proof -
  assume "r < b" "e < E"
  then have "r * E + e < r * E + E" by simp
  also have "\<dots> = Suc r * E" by simp
  also have "\<dots> \<le> b * E" using \<open>r < b\<close> by (intro mult_le_mono1) simp
  finally show ?thesis .
qed

lemma softmax1_2d:
  "softmax1 (Tensor [b, E] gs) =
     Inr (Tensor [b, E]
       (map (\<lambda>k. exp (gs ! k) / (\<Sum>e\<leftarrow>[0..<E]. exp (gs ! (k div E * E + e)))) [0..<b * E]))"
  by (simp add: softmax1_def numel_def)

lemma sum_list_exp_pos:
  "0 < E \<Longrightarrow> 0 < (\<Sum>e\<leftarrow>[0..<E]. exp (f e :: real))"
proof (induction E)
  case 0
  then show ?case by simp
next
  case (Suc E)
  have "0 \<le> (\<Sum>e\<leftarrow>[0..<E]. exp (f e))"
    by (intro sum_list_nonneg) auto
  then show ?case
    by (simp add: add_nonneg_pos)
qed

lemma softmax_row_pos: "0 < E \<Longrightarrow> 0 < softmax_row gs E r e"
  by (simp add: softmax_row_def sum_list_exp_pos)

lemma softmax_row_sum: "0 < E \<Longrightarrow> (\<Sum>e\<leftarrow>[0..<E]. softmax_row gs E r e) = 1"
proof -
  assume E: "0 < E"
  let ?Z = "\<Sum>e'\<leftarrow>[0..<E]. exp (gs ! (r * E + e'))"
  have "(\<Sum>e\<leftarrow>[0..<E]. softmax_row gs E r e) = (\<Sum>e\<leftarrow>[0..<E]. exp (gs ! (r * E + e)) * (1 / ?Z))"
    by (simp add: softmax_row_def)
  also have "\<dots> = ?Z * (1 / ?Z)"
    by (simp only: sum_list_mult_const)
  also have "\<dots> = 1"
    using sum_list_exp_pos [OF E, of "\<lambda>e. gs ! (r * E + e)"] by simp
  finally show ?thesis .
qed

lemma softmax1_2d_nth:
  assumes "r < b" "e < E"
  shows "\<exists>w. softmax1 (Tensor [b, E] gs) = Inr (Tensor [b, E] w) \<and> length w = b * E \<and>
     w ! (r * E + e) = softmax_row gs E r e"
  using assms idx2_less [OF assms]
  by (simp add: softmax1_2d softmax_row_def)


lemma bget_3d:
  "r < b \<Longrightarrow> t < n \<Longrightarrow> j < d \<Longrightarrow>
   bget (Tensor [b, n, d] xs) [r, t, j] = xs ! ((r * n + t) * d + j)"
  by (auto simp: bget_def pad_left_def numel_def algebra_simps)

lemma idx3:
  assumes "j < (d::nat)" "t < (E::nat)"
  shows "((r * E + t) * d + j) div d = r * E + t"
    and "((r * E + t) * d + j) mod d = j"
    and "((r * E + t) * d + j) div (E * d) = r"
    and "((r * E + t) * d + j) div d mod E = t"
proof -
  show 1: "((r * E + t) * d + j) div d = r * E + t"
    using assms by simp
  show "((r * E + t) * d + j) mod d = j"
    using assms by simp
  have "((r * E + t) * d + j) div (E * d) = ((r * E + t) * d + j) div d div E"
    by (subst mult.commute [of E d]) (rule div_mult2_eq)
  then show "((r * E + t) * d + j) div (E * d) = r"
    using assms 1 by simp
  show "((r * E + t) * d + j) div d mod E = t"
    using assms 1 by simp
qed

lemma stack1_2d:
  assumes "outs \<noteq> []" "\<forall>t \<in> set outs. shape t = [b, d]"
  shows "stack1 outs =
     Inr (Tensor [b, length outs, d]
       (map (\<lambda>k. data (outs ! (k div d mod length outs)) ! (k div (length outs * d) * d + k mod d))
          [0..<b * length outs * d]))"
  using assms by (cases outs) (auto simp: stack1_def numel_def)

lemma matmul_gate:
  "matmul (Tensor [b, 1, E] w) (Tensor [b, E, d] sd) =
     Inr (Tensor [b, 1, d]
       (map (\<lambda>k. \<Sum>t\<leftarrow>[0..<E]. w ! (k div d * E + t) * sd ! ((k div d * E + t) * d + k mod d))
          [0..<b * d]))"
proof -
  have elem: "(\<Sum>t\<leftarrow>[0..<E]. bget (Tensor [b, 1, E] w) ([k div d] @ [0, t]) *
                 bget (Tensor [b, E, d] sd) ([k div d] @ [t, k mod d]))
      = (\<Sum>t\<leftarrow>[0..<E]. w ! (k div d * E + t) * sd ! ((k div d * E + t) * d + k mod d))"
    if k: "k < b * d" for k
  proof -
    have d: "0 < d" using k by (cases d) auto
    have r: "k div d < b"
      using k d by (simp add: less_mult_imp_div_less mult.commute)
    have j: "k mod d < d" using d by simp
    have "bget (Tensor [b, 1, E] w) ([k div d] @ [0, t]) *
                 bget (Tensor [b, E, d] sd) ([k div d] @ [t, k mod d])
        = w ! (k div d * E + t) * sd ! ((k div d * E + t) * d + k mod d)" if "t < E" for t
      using bget_3d [OF r _ that, of 0 1 w] bget_3d [OF r that j, of sd] by simp
    then show ?thesis
      by (intro arg_cong [where f = sum_list] map_cong refl) simp
  qed
  have "map (\<lambda>k. let q = unravel [b] (k div (1 * d)); i = k div d mod 1; j = k mod d
                in \<Sum>t\<leftarrow>[0..<E]. bget (Tensor [b, 1, E] w) (q @ [i, t]) *
                                bget (Tensor [b, E, d] sd) (q @ [t, j]))
          [0..<numel [b] * 1 * d]
      = map (\<lambda>k. \<Sum>t\<leftarrow>[0..<E]. w ! (k div d * E + t) * sd ! ((k div d * E + t) * d + k mod d))
          [0..<b * d]"
    using elem by (intro map_cong) (simp_all add: numel_def)
  then show ?thesis
    by (simp add: matmul_def broadcast_shapes_def pad_left_def bdim_def)
qed


lemma gate_mixture:
  assumes ne: "outs \<noteq> []" and shapes: "\<forall>t \<in> set outs. shape t = [b, d]"
    and E: "length outs = E"
  shows "\<exists>S. stack1 outs = Inr S \<and>
     gate_mul_expert (Tensor [b, E] gs) S =
       Inr (Tensor [b, 1, d]
         (map (\<lambda>k. \<Sum>e\<leftarrow>[0..<E]. softmax_row gs E (k div d) e * data (outs ! e) ! k)
            [0..<b * d]))"
proof -
  let ?w = "map (\<lambda>k. exp (gs ! k) / (\<Sum>e\<leftarrow>[0..<E]. exp (gs ! (k div E * E + e)))) [0..<b * E]"
  let ?sd = "map (\<lambda>k. data (outs ! (k div d mod E)) ! (k div (E * d) * d + k mod d))
      [0..<b * E * d]"
  have st: "stack1 outs = Inr (Tensor [b, E, d] ?sd)"
    using stack1_2d [OF ne shapes] E by simp
  have elem: "?w ! (k div d * E + e) * ?sd ! ((k div d * E + e) * d + k mod d)
      = softmax_row gs E (k div d) e * data (outs ! e) ! k"
    if k: "k < b * d" and e: "e < E" for k e
  proof -
    have d: "0 < d" using k by (cases d) auto
    have r: "k div d < b"
      using k d by (simp add: less_mult_imp_div_less mult.commute)
    have j: "k mod d < d" using d by simp
    have i2: "k div d * E + e < b * E"
      by (rule idx2_less [OF r e])
    have i3: "(k div d * E + e) * d + k mod d < b * E * d"
      by (rule idx2_less [OF i2 j])
    have "?w ! (k div d * E + e) = softmax_row gs E (k div d) e"
      using i2 e by (simp add: softmax_row_def)
    moreover have "?sd ! ((k div d * E + e) * d + k mod d) = data (outs ! e) ! k"
      using i3 idx3 [OF j e, of "k div d"] by simp
    ultimately show ?thesis by simp
  qed
  have eq: "map (\<lambda>k. \<Sum>e\<leftarrow>[0..<E]. ?w ! (k div d * E + e) * ?sd ! ((k div d * E + e) * d + k mod d))
          [0..<b * d]
      = map (\<lambda>k. \<Sum>e\<leftarrow>[0..<E]. softmax_row gs E (k div d) e * data (outs ! e) ! k) [0..<b * d]"
    by (intro map_cong arg_cong [where f = sum_list] refl) (simp add: elem)
  have mm: "matmul (Tensor [b, 1, E] ?w) (Tensor [b, E, d] ?sd) =
       Inr (Tensor [b, 1, d]
         (map (\<lambda>k. \<Sum>e\<leftarrow>[0..<E]. softmax_row gs E (k div d) e * data (outs ! e) ! k)
            [0..<b * d]))"
    unfolding matmul_gate by (simp only: eq)
  have "gate_mul_expert (Tensor [b, E] gs) (Tensor [b, E, d] ?sd) =
       Inr (Tensor [b, 1, d]
         (map (\<lambda>k. \<Sum>e\<leftarrow>[0..<E]. softmax_row gs E (k div d) e * data (outs ! e) ! k)
            [0..<b * d]))"
    by (simp only: gate_mul_expert_def softmax1_2d rbind_Inr unsqueeze1_def tensor.sel
        list.case mm)
  with st show ?thesis by blast
qed

lemma gate_dnn_out_final:
  assumes "fst (gate_dnn_out self x i evs) = Inr g"
  shows "\<exists>L h. get (gate_dnn_final_layer self) i = Inr L \<and> linear_apply (impl L) h = Inr g"
  using assms
  by (auto simp: gate_dnn_out_def fst_pbind_pure rbind_def split: if_splits sum.splits)

lemma softmax1_rows:
  "softmax1 (Tensor [b, E] gs)
     = Inr (Tensor [b, E] (map (\<lambda>k. softmax_row gs E (k div E) (k mod E)) [0..<b * E]))"
  by (simp add: softmax1_2d softmax_row_def)

lemma mmoe_out_value:
  "fst (mmoe_out self x experts i evs) =
     rbind (fst (gate_dnn_out self x i evs)) (\<lambda>g.
     rbind (gate_mul_expert g experts) (\<lambda>m. Inr (squeeze m)))"
  by (simp add: mmoe_out_def fst_pbind_pure)

lemma ex_forward_inputs_2:
  "dnn_feature_columns m = ex_columns \<Longrightarrow>
   forward_inputs ex_env m ex_X2 = Inr ([Tensor [2, 1, 1] [5, 7], Tensor [2, 1, 1] [1, 2]], [])"
  by (simp add: forward_inputs_def ex_env_def ex_input_from_feature_columns_def ex_columns_def
      ex_X2_def select_col_def numel_def upt_rec)

lemma small_dnn_input:
  "fst (dnn_input ex_env small_model ex_X2 evs) = Inr (Tensor [2, 2] [5, 1, 7, 2])"
  by (simp add: dnn_input_def fst_pbind_pure usetrans_in_def small_model_sel
      ex_forward_inputs_2 ex_env_sel ex_combined_dnn_input_def cat_def flatten1_def
      numel_def upt_rec)

lemma replicate_4: "replicate 4 x = [x, x, x, x]"
  by (simp add: eval_nat_numeral)

lemma small_gate_dnn_out:
  "i < 2 \<Longrightarrow>
   fst (gate_dnn_out small_model (Tensor [2, 2] [5, 1, 7, 2]) i evs)
     = Inr (Tensor [2, 2] [0, 0, 0, 0])"
  by (auto simp: gate_dnn_out_def fst_pbind_pure small_model_sel less_2_cases_iff
      tensor_eval replicate_4 simp del: ex_dnn_run.simps)

text \<open>
  C4. Let the gate of task \<open>i\<close> return \<open>E\<close> values per row for a batch of \<open>b\<close> rows, and
  let there be \<open>E > 0\<close> expert outputs of shape \<open>(b, d)\<close>. The gate's values are the
  output of its final linear layer; their softmax along dimension 1 is, row by row,
  \<open>softmax_row\<close>, whose weights are positive and add up to 1 in every row; and element
  \<open>k\<close> (row \<open>k div d\<close>) of the mixture that round \<open>i\<close> of the loop appends for tower \<open>i\<close>
  is the sum over the experts of the row's weight of the expert times element \<open>k\<close> of the
  expert's output. The arithmetic is that of the real numbers.
\<close>

theorem C4_gate_mixture:
  "0 < E \<Longrightarrow> length outs = E \<Longrightarrow> \<forall>t \<in> set outs. shape t = [b, d] \<Longrightarrow>
   fst (gate_dnn_out self x i evs) = Inr (Tensor [b, E] gs) \<Longrightarrow>
   (\<exists>L h. get (gate_dnn_final_layer self) i = Inr L \<and>
      linear_apply (impl L) h = Inr (Tensor [b, E] gs)) \<and>
   softmax1 (Tensor [b, E] gs)
     = Inr (Tensor [b, E] (map (\<lambda>k. softmax_row gs E (k div E) (k mod E)) [0..<b * E])) \<and>
   (\<forall>r e. 0 < softmax_row gs E r e) \<and>
   (\<forall>r. (\<Sum>e\<leftarrow>[0..<E]. softmax_row gs E r e) = 1) \<and>
   (\<exists>S. stack1 outs = Inr S \<and>
      fst (mmoe_out self x S i evs)
        = Inr (squeeze (Tensor [b, 1, d]
            (map (\<lambda>k. \<Sum>e\<leftarrow>[0..<E]. softmax_row gs E (k div d) e * data (outs ! e) ! k)
               [0..<b * d]))))"
proof -
  assume E: "0 < E" and len: "length outs = E"
    and shapes: "\<forall>t \<in> set outs. shape t = [b, d]"
    and gate: "fst (gate_dnn_out self x i evs) = Inr (Tensor [b, E] gs)"
  from E len have ne: "outs \<noteq> []"
    by auto
  from gate_mixture [OF ne shapes len, of gs] obtain S where S: "stack1 outs = Inr S"
    and mix: "gate_mul_expert (Tensor [b, E] gs) S =
       Inr (Tensor [b, 1, d]
         (map (\<lambda>k. \<Sum>e\<leftarrow>[0..<E]. softmax_row gs E (k div d) e * data (outs ! e) ! k)
            [0..<b * d]))"
    by blast
  have "fst (mmoe_out self x S i evs)
      = Inr (squeeze (Tensor [b, 1, d]
            (map (\<lambda>k. \<Sum>e\<leftarrow>[0..<E]. softmax_row gs E (k div d) e * data (outs ! e) ! k)
               [0..<b * d])))"
    by (simp only: mmoe_out_value gate mix rbind_Inr)
  with S gate_dnn_out_final [OF gate] softmax1_rows softmax_row_pos [OF E]
    softmax_row_sum [OF E]
  show ?thesis
    by blast
qed

theorem C4_gate_mixture_witness:
  "softmax1 (Tensor [2, 2] [0, 0, 0, 0])
     = Inr (Tensor [2, 2] (map (\<lambda>k. softmax_row [0, 0, 0, 0] 2 (k div 2) (k mod 2)) [0..<2 * 2])) \<and>
   0 < softmax_row [0, 0, 0, 0] 2 1 0 \<and>
   (\<Sum>e\<leftarrow>[0..<2]. softmax_row [0, 0, 0, 0] 2 1 e) = 1 \<and>
   (\<exists>S. stack1 [Tensor [2, 2] [1, 2, 3, 4], Tensor [2, 2] [5, 6, 7, 8]] = Inr S \<and>
      fst (mmoe_out small_model (Tensor [2, 2] [5, 1, 7, 2]) S 0 [])
        = Inr (squeeze (Tensor [2, 1, 2]
            (map (\<lambda>k. \<Sum>e\<leftarrow>[0..<2]. softmax_row [0, 0, 0, 0] 2 (k div 2) e *
                        data ([Tensor [2, 2] [1, 2, 3, 4], Tensor [2, 2] [5, 6, 7, 8]] ! e) ! k)
               [0..<2 * 2]))))"
proof -
  have E: "(0::nat) < 2"
    and len: "length [Tensor [2, 2] [1, 2, 3, 4], Tensor [2, 2] [5, 6, 7, 8]] = 2"
    and shapes: "\<forall>t \<in> set [Tensor [2, 2] [1, 2, 3, 4], Tensor [2, 2] [5, 6, 7, 8]].
      shape t = [2, 2]"
    by simp_all
  have gate: "fst (gate_dnn_out small_model (Tensor [2, 2] [5, 1, 7, 2]) 0 [])
      = Inr (Tensor [2, 2] [0, 0, 0, 0])"
    by (rule small_gate_dnn_out) simp
  from C4_gate_mixture [OF E len shapes gate] show ?thesis
    by blast
qed

section \<open>The concrete models, run\<close>

lemma replicate_8: "replicate 8 x = [x, x, x, x, x, x, x, x]"
  by (simp add: eval_nat_numeral)

lemma upt_4: "[0..<4] = [0, 1, 2, 3]"
  by (simp add: upt_rec)

lemma upt_8: "[0..<8] = [0, 1, 2, 3, 4, 5, 6, 7]"
  by (simp add: upt_rec)

lemma small_expert_outs:
  "fst (expert_outs small_model (Tensor [2, 2] [5, 1, 7, 2]) evs)
     = Inr (Tensor [2, 2, 2] [0, 0, 0, 0, 0, 0, 0, 0])"
  by (simp add: expert_outs_def fst_pbind_pure fst_for_each_pure small_model_sel upt_2
      tensor_eval replicate_4 stack1_def upt_8 Suc_Suc_0 del: ex_dnn_run.simps)

lemma gate_mul_expert_zero_2:
  "gate_mul_expert (Tensor [2, 2] [0, 0, 0, 0]) (Tensor [2, 2, 2] [0, 0, 0, 0, 0, 0, 0, 0])
     = Inr (Tensor [2, 1, 2] [0, 0, 0, 0])"
  by (simp add: gate_mul_expert_def softmax1_2d unsqueeze1_def matmul_gate [simplified]
      upt_4 upt_2)

lemma small_mmoe_outs:
  "fst (mmoe_outs small_model (Tensor [2, 2] [5, 1, 7, 2])
          (Tensor [2, 2, 2] [0, 0, 0, 0, 0, 0, 0, 0]) evs)
     = Inr [Tensor [2, 2] [0, 0, 0, 0], Tensor [2, 2] [0, 0, 0, 0]]"
  by (simp add: mmoe_outs_value small_gate_dnn_out [simplified]
      gate_mul_expert_zero_2 [simplified] squeeze_def small_model_sel upt_2)

lemma mul_zero_2d:
  "mul (Tensor [b, h] (replicate (b * h) 0)) (Tensor [b, h] ys)
     = Inr (Tensor [b, h] (replicate (b * h) 0))"
proof -
  have "map (\<lambda>k. replicate (b * h) (0::real) ! k * ys ! k) [0..<b * h] = map (\<lambda>k. 0) [0..<b * h]"
    by (intro map_cong refl) simp
  then show ?thesis
    by (simp add: mul_same_2d map_const_upt)
qed

lemma small_tower:
  "i < 2 \<Longrightarrow>
   fst (MMOE_MT_tower small_model (Tensor [2, 64] (replicate 128 1))
          [Tensor [2, 2] [0, 0, 0, 0], Tensor [2, 2] [0, 0, 0, 0]] i evs)
     = Inr (Tensor [2, 1] [1 / 2, 1 / 2])"
  using mul_zero_2d [of 2 64 "replicate 128 1"]
  by (auto simp: MMOE_MT_tower_def tower_logit_out_def fst_pbind_pure small_model_sel
      less_2_cases_iff ex_sigmoid_layer_def tensor_eval simp del: ex_dnn_run.simps)

lemma small_forward:
  "fst (MMOE_MT_forward ex_env small_model ex_X2 [])
     = Inr (Tensor [2, 2] [1 / 2, 1 / 2, 1 / 2, 1 / 2])"
  by (simp add: MMOE_MT_forward_value small_dnn_input [simplified]
      small_expert_outs [simplified] small_mmoe_outs [simplified]
      small_domain_emb [simplified] small_lhuc_output [simplified] small_model_sel upt_2
      small_tower [simplified] cat_def numel_def upt_2)

lemma with_lhuc_sel:
  "lhuc (with_lhuc m l t) = l" "target_attention (with_lhuc m l t) = t"
  "dnn_feature_columns (with_lhuc m l t) = dnn_feature_columns m"
  "feature_index (with_lhuc m l t) = feature_index m"
  "num_tasks (with_lhuc m l t) = num_tasks m"
  "domain_column (with_lhuc m l t) = domain_column m"
  "flag (with_lhuc m l t) = flag m"
  "num_experts (with_lhuc m l t) = num_experts m"
  "gate_dnn_hidden_units (with_lhuc m l t) = gate_dnn_hidden_units m"
  "tower_dnn_hidden_units (with_lhuc m l t) = tower_dnn_hidden_units m"
  "int_layers (with_lhuc m l t) = int_layers m"
  "expert_dnn (with_lhuc m l t) = expert_dnn m"
  "gate_dnn (with_lhuc m l t) = gate_dnn m"
  "gate_dnn_final_layer (with_lhuc m l t) = gate_dnn_final_layer m"
  "tower_dnn (with_lhuc m l t) = tower_dnn m"
  "tower_dnn_final_layer (with_lhuc m l t) = tower_dnn_final_layer m"
  "out (with_lhuc m l t) = out m"
  "domain_embeddings (with_lhuc m l t) = domain_embeddings m"
  by (simp_all add: with_lhuc_def)

lemma with_lhuc_phases:
  "dnn_input env (with_lhuc m l t) X = dnn_input env m X"
  "expert_outs (with_lhuc m l t) x = expert_outs m x"
  "gate_dnn_out (with_lhuc m l t) x i = gate_dnn_out m x i"
  "mmoe_out (with_lhuc m l t) x S i = mmoe_out m x S i"
  "mmoe_outs (with_lhuc m l t) x S = mmoe_outs m x S"
  "domain_emb (with_lhuc m l t) X = domain_emb m X"
  "tower_logit_out (with_lhuc m l t) i y = tower_logit_out m i y"
  unfolding dnn_input_def forward_inputs_def expert_outs_def gate_dnn_out_def mmoe_out_def
    mmoe_outs_def domain_emb_def domain_ids_def tower_logit_out_def with_lhuc_sel
  by (rule refl)+

lemma small_att_model_built:
  "MMOE_MT_ATT_init ex_env ex_self0 small_args 0 = (Inr small_att_model, 23)"
  by (simp add: MMOE_MT_ATT_init_def init_defs small_args_def ex_args_def default_args_def
      ex_columns_def ex_self0_def small_att_model_def with_lhuc_def small_model_def
      zero_lhuc_def zero_embedding_def ex_sigmoid_layer_def ex_attention_def)

lemma bug_att_model_built:
  "MMOE_MT_ATT_init ex_env ex_self0 bug_args 0 = (Inr bug_att_model, 21)"
  by (simp add: MMOE_MT_ATT_init_def init_defs bug_args_def small_args_def ex_args_def
      default_args_def ex_columns_def ex_self0_def bug_att_model_def with_lhuc_def
      bug_model_def zero_lhuc_def zero_embedding_def ex_sigmoid_layer_def ex_attention_def)

lemma MMOE_MT_ATT_forward_value:
  "fst (MMOE_MT_ATT_forward env self X evs) =
     rbind (fst (dnn_input env self X evs)) (\<lambda>x.
     rbind (fst (expert_outs self x evs)) (\<lambda>experts.
     rbind (fst (mmoe_outs self x experts evs)) (\<lambda>mmoe.
     rbind (fst (domain_emb self X evs)) (\<lambda>demb.
     rbind (rmap (\<lambda>i. fst (MMOE_MT_ATT_tower self demb mmoe i evs)) [0..<num_tasks self])
       (\<lambda>task_outs. cat task_outs (- 1))))))"
  by (simp add: MMOE_MT_ATT_forward_def fst_pbind_pure fst_for_each_pure)

lemma small_att_tower:
  "i < 2 \<Longrightarrow>
   fst (MMOE_MT_ATT_tower small_att_model (Tensor [2, 1] [0, 0])
          [Tensor [2, 2] [0, 0, 0, 0], Tensor [2, 2] [0, 0, 0, 0]] i evs)
     = Inr (Tensor [2, 1] [1 / 2, 1 / 2])"
  using mul_zero_2d [of 2 64 "replicate 128 (1 / 2)"]
  by (auto simp: MMOE_MT_ATT_tower_def att_factor_def fst_pbind_pure small_att_model_def
      with_lhuc_sel with_lhuc_phases tower_logit_out_def small_model_sel
      less_2_cases_iff ex_sigmoid_layer_def ex_attention_def tensor_eval
      zero_lhuc_value [simplified] simp del: ex_dnn_run.simps)

lemma small_att_forward:
  "fst (MMOE_MT_ATT_forward ex_env small_att_model ex_X2 [])
     = Inr (Tensor [2, 2] [1 / 2, 1 / 2, 1 / 2, 1 / 2])"
proof -
  have t: "rmap (\<lambda>i. fst (MMOE_MT_ATT_tower small_att_model (Tensor [2, 1] [0, 0])
          [Tensor [2, 2] [0, 0, 0, 0], Tensor [2, 2] [0, 0, 0, 0]] i [])) [0, 1]
      = Inr [Tensor [2, 1] [1 / 2, 1 / 2], Tensor [2, 1] [1 / 2, 1 / 2]]"
    by (simp add: small_att_tower [simplified])
  show ?thesis
    unfolding MMOE_MT_ATT_forward_value
    by (simp add: small_att_model_def with_lhuc_phases with_lhuc_sel
        small_dnn_input [simplified]
        small_expert_outs [simplified] small_mmoe_outs [simplified]
        small_domain_emb [simplified] small_model_sel upt_2
        t [unfolded small_att_model_def, simplified] cat_def numel_def)
qed

lemma bug_att_forward:
  "fst (MMOE_MT_ATT_forward ex_env bug_att_model ex_X1 []) = Inr (Tensor [2] [1 / 2, 1 / 2])"
proof -
  have tw: "fst (MMOE_MT_ATT_tower bug_att_model demb [Tensor [2] [0, 0], Tensor [2] [0, 0]] i [])
      = Inr (Tensor [1] [1 / 2])" if "i < 2" for i demb
    using that
    by (auto simp: MMOE_MT_ATT_tower_def tower_logit_out_def fst_pbind_pure bug_att_model_def
        with_lhuc_sel with_lhuc_phases bug_model_sel
        less_2_cases_iff ex_sigmoid_layer_def tensor_eval)
  have t: "rmap (\<lambda>i. fst (MMOE_MT_ATT_tower bug_att_model (Tensor [1, 1] [0])
          [Tensor [2] [0, 0], Tensor [2] [0, 0]] i [])) [0, 1]
      = Inr [Tensor [1] [1 / 2], Tensor [1] [1 / 2]]"
    by (simp add: tw [simplified])
  show ?thesis
    unfolding MMOE_MT_ATT_forward_value
    by (simp add: bug_att_model_def with_lhuc_phases with_lhuc_sel
        bug_dnn_input [simplified]
        bug_expert_outs [simplified] bug_mmoe_outs [simplified]
        bug_domain_emb [simplified] bug_model_sel upt_2
        t [unfolded bug_att_model_def, simplified] cat_def numel_def)
qed

text \<open>The model without tower layers, on the batch of two rows.\<close>

lemma bug_model_sel_more:
  "flag bug_model = Some ''sota''" "dnn_feature_columns bug_model = ex_columns"
  "int_layers bug_model = None" "int_layers small_model = None"
  by (simp_all add: bug_model_def small_model_def)

lemma bug_small_phases:
  "dnn_input env bug_model X = dnn_input env small_model X"
  "expert_outs bug_model x = expert_outs small_model x"
  "mmoe_outs bug_model x S = mmoe_outs small_model x S"
  unfolding dnn_input_def forward_inputs_def expert_outs_def gate_dnn_out_def mmoe_out_def
    mmoe_outs_def bug_model_sel bug_model_sel_more small_model_sel
  by (simp_all add: bug_model_def small_model_def)

lemma bug_domain_emb_2:
  "fst (domain_emb bug_model ex_X2 evs) = Inr (Tensor [2, 1] [0, 0])"
  by (simp add: domain_emb_fst domain_ids_def bug_model_sel ex_X2_def select_col_def long_def
      trunc_def embedding_apply_def zero_embedding_def numel_def upt_rec)

lemma bug_lhuc_output_2:
  "fst (lhuc_output bug_model (Tensor [2, 1] [0, 0]) evs)
     = Inr (Tensor [2, 64] (replicate 128 1))"
  by (simp add: lhuc_output_def fst_pbind_pure bug_model_sel zero_lhuc_value [simplified]
      scale_def)

lemma bug_tower_2:
  "i < 2 \<Longrightarrow>
   fst (MMOE_MT_tower bug_model lh [Tensor [2, 2] [0, 0, 0, 0], Tensor [2, 2] [0, 0, 0, 0]] i evs)
     = Inr (Tensor [2, 1] [1 / 2, 1 / 2])"
  by (auto simp: MMOE_MT_tower_def tower_logit_out_def fst_pbind_pure bug_model_sel
      less_2_cases_iff ex_sigmoid_layer_def tensor_eval)

lemma bug_forward_2:
  "fst (MMOE_MT_forward ex_env bug_model ex_X2 [])
     = Inr (Tensor [2, 2] [1 / 2, 1 / 2, 1 / 2, 1 / 2])"
  by (simp add: MMOE_MT_forward_value bug_small_phases small_dnn_input [simplified]
      small_expert_outs [simplified] small_mmoe_outs [simplified]
      bug_domain_emb_2 [simplified] bug_lhuc_output_2 [simplified] bug_model_sel upt_2
      bug_tower_2 [simplified] cat_def numel_def)

section \<open>A batch of one row\<close>

text \<open>
  C2, at a batch of one row. With \<^verbatim>\<open>tower_dnn_hidden_units=()\<close> (and small layers
  otherwise) the constructors of \<^verbatim>\<open>MMOE_MT\<close> and \<^verbatim>\<open>MMOE_MT_ATT\<close> return \<open>bug_model\<close>
  and \<open>bug_att_model\<close>. For the batch \<open>ex_X2\<close> of two rows the forward pass of
  \<open>bug_model\<close> returns a tensor of shape \<open>(2, 2)\<close>, one row per batch row and one column
  per task. For the batch \<open>ex_X1\<close> of shape \<open>(1, 2)\<close> both forward passes return a tensor
  of shape \<open>(2)\<close>, the number of tasks, and not of shape \<open>(1, 2)\<close>:
  \<^verbatim>\<open>gate_mul_expert.squeeze()\<close> of line 175 (176) removes the batch dimension of size 1
  together with dimension 1, and every later step works on vectors.
\<close>

theorem C2_batch_of_one:
  "MMOE_MT_init ex_env ex_self0 bug_args 0 = (Inr bug_model, 15) \<and>
   MMOE_MT_ATT_init ex_env ex_self0 bug_args 0 = (Inr bug_att_model, 21) \<and>
   num_tasks bug_model = 2 \<and> num_tasks bug_att_model = 2 \<and>
   shape ex_X2 = [2, 2] \<and>
   fst (MMOE_MT_forward ex_env bug_model ex_X2 [])
     = Inr (Tensor [2, 2] [1 / 2, 1 / 2, 1 / 2, 1 / 2]) \<and>
   shape ex_X1 = [1, 2] \<and>
   fst (MMOE_MT_forward ex_env bug_model ex_X1 []) = Inr (Tensor [2] [1 / 2, 1 / 2]) \<and>
   fst (MMOE_MT_ATT_forward ex_env bug_att_model ex_X1 []) = Inr (Tensor [2] [1 / 2, 1 / 2])"
  using bug_model_built bug_att_model_built bug_forward bug_forward_2 bug_att_forward
  by (simp add: ex_X1_def ex_X2_def bug_model_sel bug_att_model_def with_lhuc_sel)

section \<open>The experts are run once\<close>

lemma quiet_ret [simp]: "quiet (ret x)"
  by (simp add: quiet_def ret_def)

lemma quiet_lift [simp]: "quiet (lift r)"
  by (simp add: quiet_def lift_def)

lemma quiet_invoke [simp]: "a \<noteq> ''expert_dnn'' \<Longrightarrow> quiet (invoke a idx M xs run)"
  by (simp add: quiet_def invoke_def expert_calls_def)

lemma quiet_pbind [simp]:
  assumes "quiet m" "\<And>x. quiet (f x)"
  shows "quiet (pbind m f)"
  unfolding quiet_def
proof
  fix evs
  obtain r s1 where m: "m evs = (r, s1)"
    by (cases "m evs")
  have s1: "expert_calls s1 = expert_calls evs"
    using assms(1) m by (auto simp: quiet_def dest: spec [of _ evs])
  show "expert_calls (snd (pbind m f evs)) = expert_calls evs"
  proof (cases r)
    case (Inl e)
    with m s1 show ?thesis by (simp add: pbind_def)
  next
    case (Inr x)
    have "expert_calls (snd (f x s1)) = expert_calls s1"
      using assms(2) [of x] by (simp add: quiet_def)
    with m s1 Inr show ?thesis by (simp add: pbind_def)
  qed
qed

lemma quiet_case_prod [simp]:
  "(\<And>a b. quiet (f a b)) \<Longrightarrow> quiet (case p of (a, b) \<Rightarrow> f a b)"
  by (cases p) simp

lemma quiet_for_each [simp]: "(\<And>x. quiet (f x)) \<Longrightarrow> quiet (for_each xs f)"
  by (induction xs) simp_all

lemma quiet_call_chain [simp]:
  "a \<noteq> ''expert_dnn'' \<Longrightarrow> quiet (call_chain run a idx j Ms x)"
  by (induction Ms arbitrary: j x) simp_all

lemma quiet_phases [simp]:
  "quiet (dnn_input env self X)"
  "quiet (gate_dnn_out self x i)"
  "quiet (mmoe_out self x S i)"
  "quiet (mmoe_outs self x S)"
  "quiet (domain_emb self X)"
  "quiet (tower_logit_out self i t)"
  by (simp_all add: dnn_input_def gate_dnn_out_def mmoe_out_def mmoe_outs_def domain_emb_def
      tower_logit_out_def)

lemma quiet_MT [simp]:
  "quiet (lhuc_output self' demb)"
  "quiet (MMOE_MT_tower self' l mm i)"
  by (simp_all add: lhuc_output_def MMOE_MT_tower_def)

lemma quiet_ATT [simp]:
  "quiet (att_factor self'' i t demb)"
  "quiet (MMOE_MT_ATT_tower self'' demb mm i)"
  by (simp_all add: att_factor_def MMOE_MT_ATT_tower_def)

lemma quietD: "quiet p \<Longrightarrow> p evs = (r, evs') \<Longrightarrow> expert_calls evs' = expert_calls evs"
  by (auto simp: quiet_def dest: spec [of _ evs])

text \<open>The loop over the experts.\<close>

lemma expert_loop:
  assumes "for_each is (\<lambda>i. pbind (lift (get Ms i)) (\<lambda>M.
              invoke ''expert_dnn'' [i] M [TensorArg x] (\<lambda>f. f x))) evs = (Inr outs, evs')"
  shows "evs' = evs @ map (\<lambda>i. Call ''expert_dnn'' [i] (mid (Ms ! i)) [TensorArg x]) is \<and>
     length outs = length is \<and>
     (\<forall>k < length is. is ! k < length Ms \<and> impl (Ms ! (is ! k)) x = Inr (outs ! k))"
  using assms
proof (induction "is" arbitrary: evs outs)
  case Nil
  then show ?case by simp
next
  case (Cons i "is")
  from Cons.prems obtain y s1 ys where
    step: "pbind (lift (get Ms i)) (\<lambda>M. invoke ''expert_dnn'' [i] M [TensorArg x] (\<lambda>f. f x)) evs
        = (Inr y, s1)"
    and rest: "for_each is (\<lambda>i. pbind (lift (get Ms i)) (\<lambda>M.
              invoke ''expert_dnn'' [i] M [TensorArg x] (\<lambda>f. f x))) s1 = (Inr ys, evs')"
    and outs: "outs = y # ys"
    by (auto simp: pbind_Inr_iff)
  from step have i: "i < length Ms" and y: "impl (Ms ! i) x = Inr y"
    and s1: "s1 = evs @ [Call ''expert_dnn'' [i] (mid (Ms ! i)) [TensorArg x]]"
    by (auto simp: pbind_Inr_iff get_def invoke_def split: if_splits)
  from Cons.IH [OF rest] s1 outs i y show ?case
    by (auto simp: nth_Cons split: nat.splits)
qed

lemma expert_outs_Inr:
  assumes "expert_outs self x evs = (Inr S, evs')"
  shows "evs' = evs @ map (\<lambda>e. Call ''expert_dnn'' [e] (mid (expert_dnn self ! e)) [TensorArg x])
                      [0..<nat (num_experts self)]"
    and "\<exists>outs. length outs = nat (num_experts self) \<and>
           (\<forall>e < nat (num_experts self). e < length (expert_dnn self) \<and>
              impl (expert_dnn self ! e) x = Inr (outs ! e)) \<and>
           stack1 outs = Inr S"
proof -
  from assms obtain outs where
    loop: "for_each [0..<nat (num_experts self)] (\<lambda>i. pbind (lift (get (expert_dnn self) i)) (\<lambda>M.
              invoke ''expert_dnn'' [i] M [TensorArg x] (\<lambda>f. f x))) evs = (Inr outs, evs')"
    and st: "stack1 outs = Inr S"
    by (auto simp: expert_outs_def pbind_Inr_iff)
  note l = expert_loop [OF loop]
  from l show "evs' = evs @ map (\<lambda>e. Call ''expert_dnn'' [e] (mid (expert_dnn self ! e)) [TensorArg x])
                      [0..<nat (num_experts self)]"
    by simp
  from l st show "\<exists>outs. length outs = nat (num_experts self) \<and>
           (\<forall>e < nat (num_experts self). e < length (expert_dnn self) \<and>
              impl (expert_dnn self ! e) x = Inr (outs ! e)) \<and>
           stack1 outs = Inr S"
    by (intro exI [of _ outs]) auto
qed

lemma expert_calls_append [simp]:
  "expert_calls (xs @ ys) = expert_calls xs @ expert_calls ys"
  by (simp add: expert_calls_def)

lemma expert_calls_map [simp]:
  "expert_calls (map (\<lambda>e. Call ''expert_dnn'' (f e) (g e) (h e)) es)
     = map (\<lambda>e. Call ''expert_dnn'' (f e) (g e) (h e)) es"
  by (induction es) (simp_all add: expert_calls_def)

lemma rmap_Inr:
  "rmap f xs = Inr ys \<Longrightarrow> length ys = length xs \<and> (\<forall>k < length xs. f (xs ! k) = Inr (ys ! k))"
proof (induction xs arbitrary: ys)
  case Nil
  then show ?case by simp
next
  case (Cons x xs)
  from Cons.prems obtain y ys' where "f x = Inr y" "rmap f xs = Inr ys'" "ys = y # ys'"
    by (auto simp: rbind_def split: sum.splits)
  with Cons.IH [of ys'] show ?case
    by (auto simp: nth_Cons split: nat.splits)
qed


lemma fst_pure: "pure_value p \<Longrightarrow> p s = (r, s') \<Longrightarrow> fst (p s0) = r"
  by (metis fst_conv pure_value_def)

lemma shared_experts:
  assumes run: "pbind (dnn_input env self X) (\<lambda>x. pbind (expert_outs self x) (\<lambda>S.
      pbind (mmoe_outs self x S) rest)) [] = (Inr y, evs)"
    and rest: "\<And>mm. quiet (rest mm)"
  shows "\<exists>x outs S mm. fst (dnn_input env self X []) = Inr x \<and>
     expert_calls evs
       = map (\<lambda>e. Call ''expert_dnn'' [e] (mid (expert_dnn self ! e)) [TensorArg x])
           [0..<nat (num_experts self)] \<and>
     length outs = nat (num_experts self) \<and>
     (\<forall>e < nat (num_experts self). impl (expert_dnn self ! e) x = Inr (outs ! e)) \<and>
     stack1 outs = Inr S \<and> fst (expert_outs self x []) = Inr S \<and>
     length mm = num_tasks self \<and>
     (\<forall>i < num_tasks self. fst (mmoe_out self x S i []) = Inr (mm ! i))"
proof -
  from run obtain x e1 S e2 mm e3 where
    d: "dnn_input env self X [] = (Inr x, e1)"
    and e: "expert_outs self x e1 = (Inr S, e2)"
    and m: "mmoe_outs self x S e2 = (Inr mm, e3)"
    and r: "rest mm e3 = (Inr y, evs)"
    unfolding pbind_Inr_iff by blast
  have c1: "expert_calls e1 = []"
    using quietD [OF quiet_phases(1) d] by (simp add: expert_calls_def)
  have c2: "expert_calls e2 = map (\<lambda>e. Call ''expert_dnn'' [e] (mid (expert_dnn self ! e)) [TensorArg x])
           [0..<nat (num_experts self)]"
    unfolding expert_outs_Inr(1) [OF e] using c1 by simp
  have c3: "expert_calls evs = expert_calls e2"
    using quietD [OF rest r] quietD [OF quiet_phases(4) m] by simp
  from expert_outs_Inr(2) [OF e] obtain outs where
    outs: "length outs = nat (num_experts self)"
      "\<forall>e < nat (num_experts self). impl (expert_dnn self ! e) x = Inr (outs ! e)"
      "stack1 outs = Inr S"
    by blast
  have S: "fst (expert_outs self x []) = Inr S"
    by (rule fst_pure [OF pure_expert_outs e])
  have "fst (mmoe_outs self x S []) = Inr mm"
    by (rule fst_pure [OF pure_mmoe_outs m])
  then have "rmap (\<lambda>i. fst (mmoe_out self x S i [])) [0..<num_tasks self] = Inr mm"
    by (simp add: mmoe_outs_def fst_for_each_pure)
  from rmap_Inr [OF this] have mm: "length mm = num_tasks self"
    "\<forall>i < num_tasks self. fst (mmoe_out self x S i []) = Inr (mm ! i)"
    by simp_all
  from d c2 c3 outs S mm show ?thesis
    by (intro exI [of _ x] exI [of _ outs] exI [of _ S] exI [of _ mm]) simp
qed

lemma MMOE_MT_shared_experts:
  assumes "MMOE_MT_forward env self X [] = (Inr y, evs)"
  shows "\<exists>x outs S mm. fst (dnn_input env self X []) = Inr x \<and>
     expert_calls evs
       = map (\<lambda>e. Call ''expert_dnn'' [e] (mid (expert_dnn self ! e)) [TensorArg x])
           [0..<nat (num_experts self)] \<and>
     length outs = nat (num_experts self) \<and>
     (\<forall>e < nat (num_experts self). impl (expert_dnn self ! e) x = Inr (outs ! e)) \<and>
     stack1 outs = Inr S \<and> fst (expert_outs self x []) = Inr S \<and>
     length mm = num_tasks self \<and>
     (\<forall>i < num_tasks self. fst (mmoe_out self x S i []) = Inr (mm ! i))"
  by (rule shared_experts [OF assms [unfolded MMOE_MT_forward_def]]) simp

lemma MMOE_MT_ATT_shared_experts:
  assumes "MMOE_MT_ATT_forward env self X [] = (Inr y, evs)"
  shows "\<exists>x outs S mm. fst (dnn_input env self X []) = Inr x \<and>
     expert_calls evs
       = map (\<lambda>e. Call ''expert_dnn'' [e] (mid (expert_dnn self ! e)) [TensorArg x])
           [0..<nat (num_experts self)] \<and>
     length outs = nat (num_experts self) \<and>
     (\<forall>e < nat (num_experts self). impl (expert_dnn self ! e) x = Inr (outs ! e)) \<and>
     stack1 outs = Inr S \<and> fst (expert_outs self x []) = Inr S \<and>
     length mm = num_tasks self \<and>
     (\<forall>i < num_tasks self. fst (mmoe_out self x S i []) = Inr (mm ! i))"
  by (rule shared_experts [OF assms [unfolded MMOE_MT_ATT_forward_def]]) simp



section \<open>Target attention and LHUC block of each task in \<^verbatim>\<open>MMOE_MT_ATT\<close>\<close>

lemma upt_4_from: "[n..<n + 4] = [n, n + 1, n + 2, n + 3]"
  by (simp add: upt_rec [of n] upt_rec [of "Suc n"] upt_rec [of "Suc (Suc n)"]
      upt_rec [of "Suc (Suc (Suc n))"])

lemma for_each_lhuc_blocks:
  "for_each xs (\<lambda>_. lhuc_block env e) n = (Inr ls, n') \<Longrightarrow>
   length ls = length xs \<and> n' = n + 4 * length xs \<and>
   concat (map (map mid) ls) = [n..<n + 4 * length xs] \<and>
   (\<forall>i < length xs. \<exists>L1 L2. map impl (ls ! i) = [Linear L1, ReLU, Linear L2, Sigmoid])"
proof (induction xs arbitrary: n ls n')
  case Nil
  then show ?case by (simp add: ret_def)
next
  case (Cons x xs)
  from Cons.prems obtain l n1 rest where
    l: "lhuc_block env e n = (Inr l, n1)"
    and r: "for_each xs (\<lambda>_. lhuc_block env e) n1 = (Inr rest, n')"
    and ls: "ls = l # rest"
    by (auto simp: pbind_Inr_iff ret_def)
  from lhuc_block_Inr [OF l] obtain L1 L2 where
    l': "l = [Module n (Linear L1), Module (n + 1) ReLU,
              Module (n + 2) (Linear L2), Module (n + 3) Sigmoid]"
    and n1: "n1 = n + 4"
    by blast
  note ih = Cons.IH [OF r]
  have c: "concat (map (map mid) ls) = [n..<n + 4 * length (x # xs)]"
  proof -
    have "[n..<n + 4 * length (x # xs)] = [n..<n + 4] @ [n + 4..<n + 4 + 4 * length xs]"
      using upt_add_eq_append [of n "n + 4" "4 * length xs"] by (simp add: add.assoc)
    then show ?thesis
      using ih by (simp add: ls l' n1 upt_4_from)
  qed
  have i: "\<forall>i < length (x # xs). \<exists>L1 L2. map impl (ls ! i) = [Linear L1, ReLU, Linear L2, Sigmoid]"
  proof (intro allI impI)
    fix i assume "i < length (x # xs)"
    then show "\<exists>L1 L2. map impl (ls ! i) = [Linear L1, ReLU, Linear L2, Sigmoid]"
      using ih by (cases i) (auto simp: ls l')
  qed
  from ih c i show ?case by (simp add: ls n1)
qed

lemma for_each_new_modules:
  "for_each xs (\<lambda>_. new_module build) n = (Inr ts, n') \<Longrightarrow>
   length ts = length xs \<and> n' = n + length xs \<and> map mid ts = [n..<n + length xs]"
proof (induction xs arbitrary: n ts n')
  case Nil
  then show ?case by (simp add: ret_def)
next
  case (Cons x xs)
  from Cons.prems obtain t rest where
    t: "new_module build n = (Inr t, Suc n)"  "mid t = n"
    and r: "for_each xs (\<lambda>_. new_module build) (Suc n) = (Inr rest, n')"
    and ts: "ts = t # rest"
    by (auto simp: pbind_Inr_iff ret_def new_module_Inr_iff)
  have "[n..<Suc (n + length xs)] = n # [Suc n..<Suc (n + length xs)]"
    by (rule upt_conv_Cons) simp
  with Cons.IH [OF r] show ?case
    by (simp add: ts t del: upt_Suc)
qed

lemma MMOE_MT_ATT_modules_built:
  assumes "MMOE_MT_ATT_init env self0 a n = (Inr m, n')"
  shows "length (target_attention m) = num_tasks m"
    and "length (lhuc m) = num_tasks m"
    and "distinct (map mid (target_attention m) @ concat (map (map mid) (lhuc m)))"
    and "\<forall>i < num_tasks m. \<exists>L1 L2. map impl (lhuc m ! i) = [Linear L1, ReLU, Linear L2, Sigmoid]"
proof -
  from assms obtain n8 l t where
    tail: "pbind (for_each [0..<length (arg_task_names a)] (\<lambda>_.
                 lhuc_block env (embedding_size self0))) (\<lambda>ls.
        pbind (for_each [0..<length (arg_task_names a)] (\<lambda>_.
                 new_module (\<lambda>n. Attention_Layer env n (embedding_size self0) 4 True))) (\<lambda>ts.
        ret (ls, ts))) n8 = (Inr (l, t), n')"
    and m: "lhuc m = l" "target_attention m = t" "num_tasks m = length (arg_task_names a)"
    unfolding MMOE_MT_ATT_init_def by (elim mmoe_init_InrE) simp
  from tail obtain n9 where
    ls: "for_each [0..<length (arg_task_names a)] (\<lambda>_. lhuc_block env (embedding_size self0)) n8
           = (Inr l, n9)"
    and ts: "for_each [0..<length (arg_task_names a)] (\<lambda>_.
                 new_module (\<lambda>n. Attention_Layer env n (embedding_size self0) 4 True)) n9
           = (Inr t, n')"
    by (auto simp: pbind_Inr_iff ret_def)
  note L = for_each_lhuc_blocks [OF ls]
  note T = for_each_new_modules [OF ts]
  show "length (target_attention m) = num_tasks m" "length (lhuc m) = num_tasks m"
    using L T by (simp_all add: m)
  show "\<forall>i < num_tasks m. \<exists>L1 L2. map impl (lhuc m ! i) = [Linear L1, ReLU, Linear L2, Sigmoid]"
    using L by (simp add: m)
  show "distinct (map mid (target_attention m) @ concat (map (map mid) (lhuc m)))"
    using L T by (auto simp: m)
qed

lemma lhuc_layers:
  assumes "map impl ls = [Linear L1, ReLU, Linear L2, Sigmoid]"
  obtains a b c d where "ls = [Module a (Linear L1), Module b ReLU, Module c (Linear L2),
      Module d Sigmoid]"
proof -
  from assms obtain M1 M2 M3 M4 where ls: "ls = [M1, M2, M3, M4]"
    and i: "impl M1 = Linear L1" "impl M2 = ReLU" "impl M3 = Linear L2" "impl M4 = Sigmoid"
    by (auto simp: map_eq_Cons_conv)
  show thesis
    using i by (intro that [of "mid M1" "mid M2" "mid M3" "mid M4"])
      (cases M1; cases M2; cases M3; cases M4; simp add: ls)
qed

lemma att_factor_value:
  assumes "i < length (target_attention self)" "i < length (lhuc self)"
    and "map impl (lhuc self ! i) = [Linear L1, ReLU, Linear L2, Sigmoid]"
  shows "fst (att_factor self i t demb evs)
     = rbind (impl (target_attention self ! i) t demb) (\<lambda>att.
       rbind (linear_apply L1 att) (\<lambda>h.
       rbind (linear_apply L2 (pointwise relu h)) (\<lambda>z. Inr (pointwise sigmoid z))))"
proof -
  from assms(3) obtain a b c d where
    "lhuc self ! i = [Module a (Linear L1), Module b ReLU, Module c (Linear L2), Module d Sigmoid]"
    by (rule lhuc_layers)
  then show ?thesis
    using assms(1,2) by (simp add: att_factor_def fst_pbind_pure get_def)
qed

lemma att_factor_calls:
  assumes "i < length (target_attention self)" "i < length (lhuc self)"
    and "map impl (lhuc self ! i) = [Linear L1, ReLU, Linear L2, Sigmoid]"
    and "att_factor self i t demb evs = (Inr f, evs')"
  shows "map call_mid evs'
     = map call_mid evs @ mid (target_attention self ! i) # map mid (lhuc self ! i)"
proof -
  from assms(3) obtain a b c d where
    "lhuc self ! i = [Module a (Linear L1), Module b ReLU, Module c (Linear L2), Module d Sigmoid]"
    by (rule lhuc_layers)
  then show ?thesis
    using assms(1,2,4)
    by (auto simp: att_factor_def pbind_Inr_iff get_def lift_eq ret_eq invoke_def)
qed

lemma MMOE_MT_ATT_tower_value:
  assumes "tower_dnn_hidden_units self \<noteq> []"
  shows "fst (MMOE_MT_ATT_tower self demb mmoe i evs)
     = rbind (rbind (attr (tower_dnn self)) (\<lambda>ts. get ts i)) (\<lambda>M.
       rbind (get mmoe i) (\<lambda>x.
       rbind (impl M x) (\<lambda>t.
       rbind (fst (att_factor self i t demb evs)) (\<lambda>att.
       rbind (mul t att) (\<lambda>rescaled. fst (tower_logit_out self i rescaled evs))))))"
  using assms by (simp add: MMOE_MT_ATT_tower_def fst_pbind_pure)



end
